theory Spec2Isabelle
  imports Complex_Main "HOL-Library.AList"
begin

section \<open>OpenCLIF ETL: a shallow embedding of \<open>main.py\<close>\<close>

text \<open>
  The development follows \<open>src/main.py\<close>. A Python \<open>str\<close> is modelled as a
  \<^typ>\<open>string\<close> whose characters stand for the code points 0..255 (Latin-1); the character
  predicates below are Python's own on that range. A table cell is null, an integer, a
  decimal number (the value a float cell stands for; no arithmetic is done on it) or a
  string. A data frame is a header and a list of rows, a row giving the
  cell under every column name. A Python \<open>dict\<close> is an association list updated with
  \<^const>\<open>AList.update\<close>: an existing key keeps its position and gets the new value, a new
  key is appended, which is the insertion order of Python dictionaries.
\<close>

subsection \<open>Python string operations\<close>

definition py_isspace :: "char \<Rightarrow> bool" where
  "py_isspace c =
     (let n = of_char c :: nat
      in (9 \<le> n \<and> n \<le> 13) \<or> (28 \<le> n \<and> n \<le> 32) \<or> n = 133 \<or> n = 160)"

definition py_strip :: "string \<Rightarrow> string" where
  "py_strip s = rev (dropWhile py_isspace (rev (dropWhile py_isspace s)))"

text \<open>\<open>s.split(sep)\<close> for a separator of one character: never the empty list.\<close>

fun py_split :: "char \<Rightarrow> string \<Rightarrow> string list" where
  "py_split sep [] = [[]]"
| "py_split sep (c # cs) =
     (if c = sep then [] # py_split sep cs
      else (case py_split sep cs of
              [] \<Rightarrow> [[c]]
            | w # ws \<Rightarrow> (c # w) # ws))"

definition is_decimal_char :: "char \<Rightarrow> bool" where
  "is_decimal_char c = (let n = of_char c :: nat in 48 \<le> n \<and> n \<le> 57)"

text \<open>
  \<open>str.isdigit\<close> accepts, besides the decimal digits, the characters with the Unicode
  property Numeric_Type=Digit: on Latin-1 these are the superscripts two, three and one
  (U+00B2, U+00B3, U+00B9).
\<close>

definition is_digit_char :: "char \<Rightarrow> bool" where
  "is_digit_char c =
     (let n = of_char c :: nat in (48 \<le> n \<and> n \<le> 57) \<or> n = 178 \<or> n = 179 \<or> n = 185)"

definition py_isdigit :: "string \<Rightarrow> bool" where
  "py_isdigit s = (s \<noteq> [] \<and> list_all is_digit_char s)"

definition py_lower_char :: "char \<Rightarrow> char" where
  "py_lower_char c =
     (let n = of_char c :: nat
      in if (65 \<le> n \<and> n \<le> 90) \<or> (192 \<le> n \<and> n \<le> 222 \<and> n \<noteq> 215)
         then char_of (n + 32) else c)"

definition py_lower :: "string \<Rightarrow> string" where
  "py_lower s = map py_lower_char s"

datatype error =
    FileNotFoundError
  | KeyError
  | ValueError
  | AttributeError
  | UnboundLocalError
  | ColumnNotFoundError
  | DuplicateError
  | SchemaError
  | ComputeError
  | IsADirectoryError
  | InvalidOperationError

text \<open>
  \<open>int(s)\<close>, as it behaves on the strings the program passes to it (those for which
  \<open>isdigit\<close> holds, so without sign, blank or underscore): the value of a string of
  decimal digits, \<open>ValueError\<close> for anything else.
\<close>

definition digit_val :: "char \<Rightarrow> int" where
  "digit_val c = int (of_char c) - 48"

definition py_int :: "string \<Rightarrow> error + int" where
  "py_int s =
     (if s \<noteq> [] \<and> list_all is_decimal_char s
      then Inr (foldl (\<lambda>n c. 10 * n + digit_val c) 0 s)
      else Inl ValueError)"

text \<open>\<open>str(n)\<close> for an integer.\<close>

function str_nat :: "nat \<Rightarrow> string" where
  "str_nat n =
     (if n < 10 then [char_of (48 + n)]
      else str_nat (n div 10) @ [char_of (48 + n mod 10)])"
  by pat_completeness auto
termination
  by (relation "measure id") auto

declare str_nat.simps [simp del]

definition str_int :: "int \<Rightarrow> string" where
  "str_int i = (if i < 0 then CHR ''-'' # str_nat (nat (- i)) else str_nat (nat i))"

subsection \<open>Cells, frames and dictionaries\<close>

datatype cell = Null | IntV int | NumV rat | StrV string

type_synonym row = "string \<Rightarrow> cell"

record frame =
  names :: "string list"
  rows :: "row list"

type_synonym ('k, 'v) dict = "('k \<times> 'v) list"

definition keys :: "('k, 'v) dict \<Rightarrow> 'k list" where
  "keys d = map fst d"

text \<open>\<open>row.get(col, "")\<close> on a named row of the frame with header \<open>ns\<close>.\<close>

definition row_get :: "string list \<Rightarrow> row \<Rightarrow> string \<Rightarrow> cell" where
  "row_get ns r col = (if col \<in> set ns then r col else StrV [])"

text \<open>\<open>row[col]\<close>: \<open>KeyError\<close> when the frame has no such column.\<close>

definition row_item :: "string list \<Rightarrow> row \<Rightarrow> string \<Rightarrow> error + cell" where
  "row_item ns r col = (if col \<in> set ns then Inr (r col) else Inl KeyError)"

subsection \<open>Loading the mapping tables\<close>

text \<open>
  \<open>load_mappings\<close>: the argument is the result of \<open>mapping_dir.glob("*.csv")\<close>, the
  candidate files in the order the glob yields them, each with the table read from it.
\<close>

definition load_mappings :: "frame list \<Rightarrow> error + frame" where
  "load_mappings csv_files =
     (case csv_files of
        [] \<Rightarrow> Inl FileNotFoundError
      | f # _ \<Rightarrow> Inr f)"

subsection \<open>The numeric-identifier resolver\<close>

text \<open>
  The guard \<open>ids and str(ids) != "nan" and str(ids).strip()\<close> followed by
  \<open>str(ids).split(";")\<close>: the elements to look at, none when the guard fails. A null cell
  is \<open>None\<close> and the integer 0 is falsy. A decimal (float) cell is falsy when 0, and
  otherwise its \<open>str\<close> is one element holding a point, an exponent, \<open>inf\<close> or \<open>nan\<close>,
  which \<open>isdigit\<close> rejects: it is given as that element's fate, the empty list.
\<close>

fun id_elements :: "cell \<Rightarrow> string list" where
  "id_elements Null = []"
| "id_elements (IntV i) = (if i = 0 then [] else py_split CHR '';'' (str_int i))"
| "id_elements (NumV q) = []"
| "id_elements (StrV s) =
     (if s \<noteq> [] \<and> s \<noteq> ''nan'' \<and> py_strip s \<noteq> [] then py_split CHR '';'' s else [])"

text \<open>
  The inner loop \<open>for sid in ....split(";")\<close> of one mapping row. In the assignment
  \<open>id_map[int(sid)] = row[cat_col]\<close> Python evaluates the right-hand side first.
\<close>

fun insert_ids ::
  "string list \<Rightarrow> row \<Rightarrow> string \<Rightarrow> (int, cell) dict \<Rightarrow> string list \<Rightarrow> error + (int, cell) dict"
where
  "insert_ids ns r cat_col id_map [] = Inr id_map"
| "insert_ids ns r cat_col id_map (sid # rest) =
     (let sid' = py_strip sid
      in if py_isdigit sid' then
           (case row_item ns r cat_col of
              Inl e \<Rightarrow> Inl e
            | Inr cat \<Rightarrow>
                (case py_int sid' of
                   Inl e \<Rightarrow> Inl e
                 | Inr k \<Rightarrow> insert_ids ns r cat_col (AList.update k cat id_map) rest))
         else insert_ids ns r cat_col id_map rest)"

text \<open>
  The outer loop \<open>for row in mapping.iter_rows(named=True)\<close>, continuing from the
  dictionary built so far; \<open>ids_col\<close> is \<open>sic_ids\<close>, \<open>hirid_ids\<close> or \<open>aumc_ids\<close>,
  \<open>cat_col\<close> is \<open>vital_category\<close> or \<open>lab_category\<close>.
\<close>

fun build_id_map ::
  "string \<Rightarrow> string \<Rightarrow> string list \<Rightarrow> row list \<Rightarrow> (int, cell) dict \<Rightarrow> error + (int, cell) dict"
where
  "build_id_map ids_col cat_col ns [] id_map = Inr id_map"
| "build_id_map ids_col cat_col ns (r # rs) id_map =
     (case insert_ids ns r cat_col id_map (id_elements (row_get ns r ids_col)) of
        Inl e \<Rightarrow> Inl e
      | Inr id_map' \<Rightarrow> build_id_map ids_col cat_col ns rs id_map')"

subsection \<open>The label resolver of the eICU labs adapter\<close>

text \<open>
  \<open>if eicu_ids and str(eicu_ids) != "nan": lab_map[eicu_ids.lower()] = row["lab_category"]\<close>.
  An integer or float cell has no method \<open>lower\<close>.
\<close>

fun build_lab_map ::
  "string list \<Rightarrow> row list \<Rightarrow> (string, cell) dict \<Rightarrow> error + (string, cell) dict"
where
  "build_lab_map ns [] lab_map = Inr lab_map"
| "build_lab_map ns (r # rs) lab_map =
     (case row_get ns r ''eicu_ids'' of
        Null \<Rightarrow> build_lab_map ns rs lab_map
      | StrV s \<Rightarrow>
          (if s \<noteq> [] \<and> s \<noteq> ''nan'' then
             (case row_item ns r ''lab_category'' of
                Inl e \<Rightarrow> Inl e
              | Inr cat \<Rightarrow> build_lab_map ns rs (AList.update (py_lower s) cat lab_map))
           else build_lab_map ns rs lab_map)
      | IntV i \<Rightarrow>
          (if i \<noteq> 0 then
             (case row_item ns r ''lab_category'' of
                Inl e \<Rightarrow> Inl e
              | Inr cat \<Rightarrow> Inl AttributeError)
           else build_lab_map ns rs lab_map)
      | NumV q \<Rightarrow>
          (if q \<noteq> 0 then
             (case row_item ns r ''lab_category'' of
                Inl e \<Rightarrow> Inl e
              | Inr cat \<Rightarrow> Inl AttributeError)
           else build_lab_map ns rs lab_map))"

subsection \<open>The file system, the output directory and the console\<close>

text \<open>
  \<open>data_path\<close> is a map from the names directly under it to what is there: a table file
  (csv or parquet, with the table it holds) or a directory of table files. The output
  directory maps a file name to the parquet file written there: its column names and its
  rows, a row being the four cells in the order of the \<open>select\<close>. Each \<open>print\<close> is a
  message appended to the console. A result \<open>Inl e\<close> is the run ended by the exception
  \<open>e\<close>; what the run had written before is not part of that value.
\<close>

datatype node = File frame | Dir "(string \<times> frame) list"

type_synonym clif_row = "cell \<times> cell \<times> cell \<times> cell"

type_synonym parquet = "string list \<times> clif_row list"

datatype msg =
    Starting string
  | Missing string
  | Skipping string string
  | Processing string string
  | Mapping nat string
  | NoMatching string
  | Wrote nat string
  | LabsIncluded string
  | Banner string
  | Complete

record etl_state =
  out_files :: "string \<rightharpoonup> parquet"
  console :: "msg list"

record openclif_etl =
  source :: string
  data_path :: "string \<rightharpoonup> node"
  vitals_map :: frame
  labs_map :: frame
  meds_map :: frame
  resp_map :: frame

definition print :: "msg \<Rightarrow> etl_state \<Rightarrow> etl_state" where
  "print m st = st\<lparr>console := console st @ [m]\<rparr>"

definition write_parquet :: "string \<Rightarrow> parquet \<Rightarrow> etl_state \<Rightarrow> etl_state" where
  "write_parquet output_file df st = st\<lparr>out_files := (out_files st)(output_file \<mapsto> df)\<rparr>"

text \<open>\<open>pl.scan_csv\<close> / \<open>pl.scan_parquet\<close> of one path, collected.\<close>

definition read_table :: "node \<Rightarrow> error + frame" where
  "read_table n = (case n of File df \<Rightarrow> Inr df | Dir _ \<Rightarrow> Inl IsADirectoryError)"

text \<open>The same of a list of files: their rows one after the other, no file is an error.\<close>

definition scan_files :: "frame list \<Rightarrow> error + frame" where
  "scan_files fs =
     (case fs of
        [] \<Rightarrow> Inl ComputeError
      | f # _ \<Rightarrow>
          (if list_all (\<lambda>g. names g = names f) fs
           then Inr \<lparr>names = names f, rows = concat (map rows fs)\<rparr>
           else Inl SchemaError))"

definition ends_with :: "string \<Rightarrow> string \<Rightarrow> bool" where
  "ends_with suf s = (length suf \<le> length s \<and> drop (length s - length suf) s = suf)"

text \<open>\<open>obs_dir.glob("*" + suf)\<close>.\<close>

definition glob :: "string \<Rightarrow> (string \<times> frame) list \<Rightarrow> frame list" where
  "glob suf entries = map snd (filter (\<lambda>(n, f). ends_with suf n) entries)"

subsection \<open>Column operations of polars\<close>

text \<open>\<open>pl.col(c).is_in(ids)\<close> for a list of integers: null for a null cell, which the filter drops.\<close>

definition is_in :: "cell \<Rightarrow> int list \<Rightarrow> bool" where
  "is_in c ids = (case c of IntV i \<Rightarrow> i \<in> set ids | _ \<Rightarrow> False)"

text \<open>
  \<open>Expr.replace(mapping)\<close> keeps the type of the column it is applied to (polars from
  1.0 on, the versions that have \<open>collect_schema\<close> and \<open>unpivot\<close>, which the program
  calls): unless the mapping is empty, the new values are first cast to that type, strictly,
  and a value that cannot be cast ends the call with \<open>InvalidOperationError\<close>. Then a
  value that is a key is replaced by the mapping's value, every other value is kept.

  The strict cast to Int64: a null stays null, an integer stays, a decimal number is
  truncated towards zero, a string is parsed as an optional sign and decimal digits; a
  result outside the range of Int64 is a failure.
\<close>

definition parse_int64 :: "string \<Rightarrow> int option" where
  "parse_int64 s =
     (case s of
        [] \<Rightarrow> None
      | c # cs \<Rightarrow>
          (let ds = (if c = CHR ''-'' \<or> c = CHR ''+'' then cs else s)
           in if ds \<noteq> [] \<and> list_all is_decimal_char ds then
                (let v = foldl (\<lambda>n d. 10 * n + digit_val d) 0 ds;
                     i = (if c = CHR ''-'' then - v else v)
                 in if - (2 ^ 63) \<le> i \<and> i < 2 ^ 63 then Some i else None)
              else None))"

fun cast_int64 :: "cell \<Rightarrow> cell option" where
  "cast_int64 Null = Some Null"
| "cast_int64 (IntV i) = Some (IntV i)"
| "cast_int64 (NumV q) =
     (let t = (if 0 \<le> q then \<lfloor>q\<rfloor> else \<lceil>q\<rceil>)
      in if - (2 ^ 63) \<le> t \<and> t < 2 ^ 63 then Some (IntV t) else None)"
| "cast_int64 (StrV s) = map_option IntV (parse_int64 s)"

text \<open>\<open>pl.col(c).replace(d)\<close> on the cells of an Int64 column.\<close>

definition replace_int :: "(int, cell) dict \<Rightarrow> cell list \<Rightarrow> error + cell list" where
  "replace_int d col =
     (if d = [] then Inr col
      else if list_all (\<lambda>(k, v). cast_int64 v \<noteq> None) d then
        Inr (map (\<lambda>c. case c of
                        IntV i \<Rightarrow>
                          (case map_of d i of
                             Some v \<Rightarrow> (case cast_int64 v of Some w \<Rightarrow> w | None \<Rightarrow> c)
                           | None \<Rightarrow> c)
                      | _ \<Rightarrow> c) col)
      else Inl InvalidOperationError)"

text \<open>
  The same on a string column with string values, where the cast changes nothing: a value
  that is a key is replaced, every other value is kept.
\<close>

definition replace_str :: "(string, cell) dict \<Rightarrow> cell \<Rightarrow> cell" where
  "replace_str d c =
     (case c of
        StrV s \<Rightarrow> (case map_of d s of Some v \<Rightarrow> v | None \<Rightarrow> c)
      | _ \<Rightarrow> c)"

text \<open>\<open>Expr.str.to_lowercase()\<close> on one cell of a string column.\<close>

definition to_lowercase :: "cell \<Rightarrow> cell" where
  "to_lowercase c = (case c of StrV s \<Rightarrow> StrV (py_lower s) | _ \<Rightarrow> c)"

definition is_string_column :: "string \<Rightarrow> row list \<Rightarrow> bool" where
  "is_string_column c rs = list_all (\<lambda>r. case r c of IntV _ \<Rightarrow> False | NumV _ \<Rightarrow> False | _ \<Rightarrow> True) rs"

definition is_not_null :: "clif_row \<Rightarrow> bool" where
  "is_not_null r = (case r of (h, t, c, v) \<Rightarrow> v \<noteq> Null)"

text \<open>
  \<open>DataFrame.unpivot(index, on, variable_name, value_name)\<close>: for each column of \<open>on\<close>
  in turn, one long row per source row. The cells are carried as they are; the cast of the
  value columns to one common type is left out.
\<close>

definition unpivot :: "string list \<Rightarrow> string \<Rightarrow> string \<Rightarrow> row list \<Rightarrow> row list" where
  "unpivot on variable_name value_name rs =
     concat (map (\<lambda>c. map (\<lambda>r. r(variable_name := StrV c, value_name := r c)) rs) on)"

subsection \<open>The identifier-keyed transformation\<close>

text \<open>
  The SICdb, HiRID and AUMC adapters end with the same statements, up to the column names:
  filter to the mapped identifiers, return with a warning when no row is left, add the
  category column with \<open>replace\<close> on the identifier column, rename, select, drop the null
  values, write. \<open>transform_long\<close> is that common text, with the names as parameters. A
  column that is used and not there is \<open>ColumnNotFoundError\<close>; a \<open>rename\<close> onto a name
  the frame already has is \<open>DuplicateError\<close>; a category that cannot be cast to the type
  of the identifier column is the \<open>InvalidOperationError\<close> of \<open>replace\<close>.
\<close>

definition transform_long ::
  "string \<Rightarrow> string \<Rightarrow> string \<Rightarrow> string \<Rightarrow> string \<Rightarrow> string \<Rightarrow> string \<Rightarrow> string \<Rightarrow>
   (int, cell) dict \<Rightarrow> frame \<Rightarrow> etl_state \<Rightarrow> error + etl_state"
where
  "transform_long id_col enc_col time_col val_col time_name cat_name val_name output_file id_map df st =
     (if id_col \<notin> set (names df) then Inl ColumnNotFoundError
      else
        let mapped_ids = keys id_map;
            df1 = filter (\<lambda>r. is_in (r id_col) mapped_ids) (rows df)
        in if length df1 = 0 then Inr (print (NoMatching id_col) st)
           else
             case replace_int id_map (map (\<lambda>r. r id_col) df1) of
               Inl e \<Rightarrow> Inl e
             | Inr cats \<Rightarrow>
                 (let df2 = map (\<lambda>(r, c). r(cat_name := c)) (zip df1 cats);
                      ns2 = (if cat_name \<in> set (names df) then names df else names df @ [cat_name])
                  in if \<not> list_all (\<lambda>c. c \<in> set ns2) [enc_col, time_col, val_col]
                     then Inl ColumnNotFoundError
                     else if list_ex (\<lambda>c. c \<in> set ns2) [''hospitalization_id'', time_name, val_name]
                     then Inl DuplicateError
                     else
                       let df_clif = filter is_not_null
                             (map (\<lambda>r. (r enc_col, r time_col, r cat_name, r val_col)) df2)
                       in Inr (print (Wrote (length df_clif) output_file)
                            (write_parquet output_file
                               ([''hospitalization_id'', time_name, cat_name, val_name], df_clif)
                               st))))"

text \<open>
  \<open>f = data_path / a; if not f.exists(): f = data_path / b\<close>: the first of the two
  names that exists, with what is there.
\<close>

definition csv_or_parquet ::
  "(string \<rightharpoonup> node) \<Rightarrow> string \<Rightarrow> string \<Rightarrow> (string \<times> node) option"
where
  "csv_or_parquet fs a b =
     (case fs a of
        Some n \<Rightarrow> Some (a, n)
      | None \<Rightarrow> (case fs b of Some n \<Rightarrow> Some (b, n) | None \<Rightarrow> None))"

subsection \<open>eICU\<close>

definition eicu_vital_map :: "(string, cell) dict" where
  "eicu_vital_map =
     [(''temperature'', StrV ''temp_c''),
      (''heartrate'', StrV ''heart_rate''),
      (''systemicsystolic'', StrV ''sbp''),
      (''systemicdiastolic'', StrV ''dbp''),
      (''sao2'', StrV ''spo2''),
      (''respiration'', StrV ''respiratory_rate''),
      (''systemicmean'', StrV ''map'')]"

definition etl_eicu_vitals :: "openclif_etl \<Rightarrow> etl_state \<Rightarrow> error + etl_state" where
  "etl_eicu_vitals E st =
     (case data_path E ''vitalperiodic.csv'' of
        None \<Rightarrow> Inr (print (Skipping ''vitals'' ''vitalperiodic.csv'') st)
      | Some vital_file \<Rightarrow>
          (let st1 = print (Processing ''vitals'' ''vitalperiodic.csv'') st
           in case read_table vital_file of
                Inl e \<Rightarrow> Inl e
              | Inr df \<Rightarrow>
                  (let available_cols = names df;
                       id_cols = [''patientunitstayid'', ''observationoffset''];
                       cols_to_extract =
                         id_cols @ filter (\<lambda>c. c \<in> set available_cols) (keys eicu_vital_map)
                   in if \<not> list_all (\<lambda>c. c \<in> set available_cols) cols_to_extract
                      then Inl ColumnNotFoundError
                      else
                        let value_cols = filter (\<lambda>c. c \<notin> set id_cols) cols_to_extract
                        in if value_cols \<noteq> [] then
                             (let df_long = unpivot value_cols ''eicu_col'' ''vital_value'' (rows df);
                                  df_long' = map (\<lambda>r. r(''vital_category'' :=
                                                replace_str eicu_vital_map (r ''eicu_col''))) df_long;
                                  df_clif = filter is_not_null
                                    (map (\<lambda>r. (r ''patientunitstayid'', r ''observationoffset'',
                                               r ''vital_category'', r ''vital_value'')) df_long')
                              in Inr (print (Wrote (length df_clif) ''vitals.parquet'')
                                   (write_parquet ''vitals.parquet''
                                      ([''hospitalization_id'', ''recorded_dttm_offset_min'',
                                        ''vital_category'', ''vital_value''], df_clif) st1)))
                           else Inr st1)))"

definition etl_eicu_labs :: "openclif_etl \<Rightarrow> etl_state \<Rightarrow> error + etl_state" where
  "etl_eicu_labs E st =
     (case data_path E ''lab.csv'' of
        None \<Rightarrow> Inr (print (Skipping ''labs'' ''lab.csv'') st)
      | Some lab_file \<Rightarrow>
          (let st1 = print (Processing ''labs'' ''lab.csv'') st
           in case build_lab_map (names (labs_map E)) (rows (labs_map E)) [] of
                Inl e \<Rightarrow> Inl e
              | Inr lab_map \<Rightarrow>
                  (case read_table lab_file of
                     Inl e \<Rightarrow> Inl e
                   | Inr df \<Rightarrow>
                       if \<not> list_all (\<lambda>c. c \<in> set (names df))
                              [''patientunitstayid'', ''labresultoffset'', ''labname'', ''labresult'']
                       then Inl ColumnNotFoundError
                       else if \<not> is_string_column ''labname'' (rows df) then Inl SchemaError
                       else
                         let df' = map (\<lambda>r. r(''lab_category'' :=
                                      replace_str lab_map (to_lowercase (r ''labname'')))) (rows df);
                             df_clif = filter is_not_null
                               (map (\<lambda>r. (r ''patientunitstayid'', r ''labresultoffset'',
                                          r ''lab_category'', r ''labresult'')) df')
                         in Inr (print (Wrote (length df_clif) ''labs.parquet'')
                              (write_parquet ''labs.parquet''
                                 ([''hospitalization_id'', ''lab_collect_dttm_offset_min'',
                                   ''lab_category'', ''lab_value''], df_clif) st1)))))"

text \<open>The loop over \<open>required_files\<close> that prints the missing ones.\<close>

fun check_required :: "(string \<rightharpoonup> node) \<Rightarrow> string list \<Rightarrow> etl_state \<Rightarrow> etl_state" where
  "check_required fs [] st = st"
| "check_required fs (f # rest) st =
     check_required fs rest (if fs f = None then print (Missing f) st else st)"

definition etl_eicu :: "openclif_etl \<Rightarrow> etl_state \<Rightarrow> error + etl_state" where
  "etl_eicu E st =
     (let st1 = print (Starting ''eICU'') st;
          st2 = check_required (data_path E) [''patient.csv'', ''vitalperiodic.csv'', ''lab.csv''] st1
      in case etl_eicu_vitals E st2 of
           Inl e \<Rightarrow> Inl e
         | Inr st3 \<Rightarrow> etl_eicu_labs E st3)"

subsection \<open>SICdb\<close>

definition etl_sic_vitals :: "openclif_etl \<Rightarrow> etl_state \<Rightarrow> error + etl_state" where
  "etl_sic_vitals E st =
     (case csv_or_parquet (data_path E) ''data_float_h.csv'' ''data_float_h.parquet'' of
        None \<Rightarrow> Inr (print (Skipping ''vitals'' ''data_float_h'') st)
      | Some (name, vital_file) \<Rightarrow>
          (let st1 = print (Processing ''vitals'' name) st
           in case build_id_map ''sic_ids'' ''vital_category''
                     (names (vitals_map E)) (rows (vitals_map E)) [] of
                Inl e \<Rightarrow> Inl e
              | Inr id_map \<Rightarrow>
                  (let st2 = print (Mapping (length id_map) ''SIC DataIDs'') st1
                   in case read_table vital_file of
                        Inl e \<Rightarrow> Inl e
                      | Inr df \<Rightarrow>
                          transform_long ''DataID'' ''CaseID'' ''Offset'' ''Val''
                            ''recorded_dttm_offset_min'' ''vital_category'' ''vital_value''
                            ''vitals.parquet'' id_map df st2)))"

definition etl_sic_labs :: "openclif_etl \<Rightarrow> etl_state \<Rightarrow> error + etl_state" where
  "etl_sic_labs E st =
     (case csv_or_parquet (data_path E) ''laboratory.csv'' ''laboratory.parquet'' of
        None \<Rightarrow> Inr (print (Skipping ''labs'' ''laboratory'') st)
      | Some (name, lab_file) \<Rightarrow>
          (let st1 = print (Processing ''labs'' name) st
           in case build_id_map ''sic_ids'' ''lab_category''
                     (names (labs_map E)) (rows (labs_map E)) [] of
                Inl e \<Rightarrow> Inl e
              | Inr id_map \<Rightarrow>
                  (let st2 = print (Mapping (length id_map) ''SIC LaboratoryIDs'') st1
                   in case read_table lab_file of
                        Inl e \<Rightarrow> Inl e
                      | Inr df \<Rightarrow>
                          transform_long ''LaboratoryID'' ''CaseID'' ''Offset'' ''LaboratoryValue''
                            ''lab_collect_dttm_offset_min'' ''lab_category'' ''lab_value''
                            ''labs.parquet'' id_map df st2)))"

definition etl_sic :: "openclif_etl \<Rightarrow> etl_state \<Rightarrow> error + etl_state" where
  "etl_sic E st =
     (case etl_sic_vitals E (print (Starting ''SICdb'') st) of
        Inl e \<Rightarrow> Inl e
      | Inr st1 \<Rightarrow> etl_sic_labs E st1)"

subsection \<open>HiRID\<close>

text \<open>
  The lookup of the HiRID and AUMC adapters: the loop over the vitals mapping, then the
  loop over the labs mapping into the same dictionary.
\<close>

definition merged_id_map :: "string \<Rightarrow> openclif_etl \<Rightarrow> error + (int, cell) dict" where
  "merged_id_map ids_col E =
     (case build_id_map ids_col ''vital_category'' (names (vitals_map E)) (rows (vitals_map E)) [] of
        Inl e \<Rightarrow> Inl e
      | Inr id_map \<Rightarrow>
          build_id_map ids_col ''lab_category'' (names (labs_map E)) (rows (labs_map E)) id_map)"

text \<open>
  The search for the observations: \<open>obs_dir\<close> is what is at the directory name that was
  found, if any; \<open>obs_file\<close> is what is at \<open>observations.parquet\<close>, a variable that is
  bound only when neither directory name exists.
\<close>

definition find_observations :: "(string \<rightharpoonup> node) \<Rightarrow> node option \<times> node option" where
  "find_observations fs =
     (let obs_dir =
            (case fs ''observation_tables'' of
               Some n \<Rightarrow> Some n
             | None \<Rightarrow> fs ''observations'');
          obs_file = (if obs_dir = None then fs ''observations.parquet'' else None)
      in (obs_dir, obs_file))"

text \<open>Reading them: \<open>if obs_dir.is_dir(): ... else: df = pl.scan_parquet(obs_file)\<close>.\<close>

definition read_observations :: "node option \<times> node option \<Rightarrow> error + frame" where
  "read_observations obs =
     (case obs of
        (Some (Dir entries), obs_file) \<Rightarrow>
          (let parquet_files = glob ''.parquet'' entries
           in if parquet_files \<noteq> [] then scan_files parquet_files
              else scan_files (glob ''.csv'' entries))
      | (Some (File _), obs_file) \<Rightarrow> Inl UnboundLocalError
      | (None, Some n) \<Rightarrow> read_table n
      | (None, None) \<Rightarrow> Inl UnboundLocalError)"

definition etl_hirid_vitals :: "openclif_etl \<Rightarrow> etl_state \<Rightarrow> error + etl_state" where
  "etl_hirid_vitals E st =
     (let obs = find_observations (data_path E)
      in if obs = (None, None)
         then Inr (print (Skipping ''vitals'' ''observations'') st)
         else
           let st1 = print (Processing ''vitals'' ''observations'') st
           in case merged_id_map ''hirid_ids'' E of
                Inl e \<Rightarrow> Inl e
              | Inr id_map \<Rightarrow>
                  (let st2 = print (Mapping (length id_map) ''HiRID variableids'') st1
                   in case read_observations obs of
                        Inl e \<Rightarrow> Inl e
                      | Inr df \<Rightarrow>
                          transform_long ''variableid'' ''patientid'' ''datetime'' ''value''
                            ''recorded_dttm'' ''vital_category'' ''vital_value''
                            ''vitals.parquet'' id_map df st2))"

definition etl_hirid_labs :: "openclif_etl \<Rightarrow> etl_state \<Rightarrow> error + etl_state" where
  "etl_hirid_labs E st = Inr (print (LabsIncluded ''observations'') st)"

definition etl_hirid :: "openclif_etl \<Rightarrow> etl_state \<Rightarrow> error + etl_state" where
  "etl_hirid E st =
     (case etl_hirid_vitals E (print (Starting ''HiRID'') st) of
        Inl e \<Rightarrow> Inl e
      | Inr st1 \<Rightarrow> etl_hirid_labs E st1)"

subsection \<open>AmsterdamUMCdb\<close>

definition etl_aumc_vitals :: "openclif_etl \<Rightarrow> etl_state \<Rightarrow> error + etl_state" where
  "etl_aumc_vitals E st =
     (case csv_or_parquet (data_path E) ''numericitems.csv'' ''numericitems.parquet'' of
        None \<Rightarrow> Inr (print (Skipping ''vitals'' ''numericitems'') st)
      | Some (name, vital_file) \<Rightarrow>
          (let st1 = print (Processing ''vitals'' name) st
           in case merged_id_map ''aumc_ids'' E of
                Inl e \<Rightarrow> Inl e
              | Inr id_map \<Rightarrow>
                  (let st2 = print (Mapping (length id_map) ''AUMC itemids'') st1
                   in case read_table vital_file of
                        Inl e \<Rightarrow> Inl e
                      | Inr df \<Rightarrow>
                          transform_long ''itemid'' ''admissionid'' ''measuredat'' ''value''
                            ''recorded_dttm'' ''vital_category'' ''vital_value''
                            ''vitals.parquet'' id_map df st2)))"

definition etl_aumc_labs :: "openclif_etl \<Rightarrow> etl_state \<Rightarrow> error + etl_state" where
  "etl_aumc_labs E st = Inr (print (LabsIncluded ''numericitems'') st)"

definition etl_aumc :: "openclif_etl \<Rightarrow> etl_state \<Rightarrow> error + etl_state" where
  "etl_aumc E st =
     (case etl_aumc_vitals E (print (Starting ''AUMC'') st) of
        Inl e \<Rightarrow> Inl e
      | Inr st1 \<Rightarrow> etl_aumc_labs E st1)"

subsection \<open>The dispatch\<close>

text \<open>
  \<open>run\<close>: the banner, the dispatch on the source name and the closing line. Creating the
  output directory leaves the files in it as they are.
\<close>

definition run :: "openclif_etl \<Rightarrow> etl_state \<Rightarrow> error + etl_state" where
  "run E st =
     (let st1 = print (Banner (source E)) st
      in case (if source E = ''eicu'' then etl_eicu E st1
               else if source E = ''sic'' then etl_sic E st1
               else if source E = ''hirid'' then etl_hirid E st1
               else if source E = ''aumc'' then etl_aumc E st1
               else Inl ValueError) of
           Inl e \<Rightarrow> Inl e
         | Inr st2 \<Rightarrow> Inr (print Complete st2))"

subsection \<open>Concrete inputs\<close>

text \<open>Mapping tables with the identifier columns of the four datasets.\<close>

definition ex_vitals_map :: frame where
  "ex_vitals_map =
     \<lparr>names = [''vital_category'', ''eicu_ids'', ''sic_ids'', ''hirid_ids'', ''aumc_ids''],
      rows =
        [(\<lambda>_. Null)(''vital_category'' := StrV ''temp_c'', ''sic_ids'' := StrV ''10; 20;30'',
            ''hirid_ids'' := StrV ''410; 7100'', ''aumc_ids'' := StrV ''8658''),
         (\<lambda>_. Null)(''vital_category'' := StrV ''heart_rate'', ''sic_ids'' := StrV ''708'',
            ''hirid_ids'' := StrV ''200'', ''aumc_ids'' := StrV ''6640'')]\<rparr>"

definition ex_labs_map :: frame where
  "ex_labs_map =
     \<lparr>names = [''lab_category'', ''eicu_ids'', ''sic_ids'', ''hirid_ids'', ''aumc_ids''],
      rows =
        [(\<lambda>_. Null)(''lab_category'' := StrV ''glucose'', ''eicu_ids'' := StrV ''Glucose'',
            ''sic_ids'' := StrV ''348'', ''hirid_ids'' := StrV ''200; 24000585'',
            ''aumc_ids'' := StrV ''6640; 9947''),
         (\<lambda>_. Null)(''lab_category'' := StrV ''lactate'', ''eicu_ids'' := StrV ''lactate'',
            ''sic_ids'' := StrV ''465; x12'', ''hirid_ids'' := StrV ''24000524'',
            ''aumc_ids'' := StrV ''10053'')]\<rparr>"

definition ex_etl :: "string \<Rightarrow> (string \<rightharpoonup> node) \<Rightarrow> openclif_etl" where
  "ex_etl src fs =
     \<lparr>source = src, data_path = fs, vitals_map = ex_vitals_map, labs_map = ex_labs_map,
      meds_map = \<lparr>names = [], rows = []\<rparr>, resp_map = \<lparr>names = [], rows = []\<rparr>\<rparr>"

definition st0 :: etl_state where
  "st0 = \<lparr>out_files = Map.empty, console = []\<rparr>"

text \<open>A SICdb table with a mapped row, an unmapped row and a mapped row with a null value.\<close>

definition ex_sic_float :: frame where
  "ex_sic_float =
     \<lparr>names = [''CaseID'', ''Offset'', ''DataID'', ''Val''],
      rows =
        [(\<lambda>_. Null)(''CaseID'' := IntV 7, ''Offset'' := IntV 10, ''DataID'' := IntV 20,
            ''Val'' := NumV (369 / 10)),
         (\<lambda>_. Null)(''CaseID'' := IntV 7, ''Offset'' := IntV 12, ''DataID'' := IntV 999,
            ''Val'' := NumV 5),
         (\<lambda>_. Null)(''CaseID'' := IntV 7, ''Offset'' := IntV 15, ''DataID'' := IntV 708)]\<rparr>"

definition ex_sic_fs :: "string \<rightharpoonup> node" where
  "ex_sic_fs = [''data_float_h.csv'' \<mapsto> File ex_sic_float]"

text \<open>
  A vitals mapping whose SICdb identifier is the superscript two, and a labs mapping whose
  eICU identifier field lists two labels.
\<close>

definition ex_superscript_map :: frame where
  "ex_superscript_map =
     \<lparr>names = [''vital_category'', ''sic_ids''],
      rows = [(\<lambda>_. Null)(''vital_category'' := StrV ''temp_c'', ''sic_ids'' := StrV [CHR 0xB2])]\<rparr>"

definition ex_eicu_list_map :: frame where
  "ex_eicu_list_map =
     \<lparr>names = [''lab_category'', ''eicu_ids''],
      rows = [(\<lambda>_. Null)(''lab_category'' := StrV ''glucose'',
                ''eicu_ids'' := StrV ''Glucose; bedside glucose'')]\<rparr>"

text \<open>
  A table whose only row carries an identifier that no mapping lists, under the identifier
  column of every long-format dataset, and a data directory that holds it under the file
  names of SICdb, HiRID and AUMC.
\<close>

definition ex_unmapped :: frame where
  "ex_unmapped =
     \<lparr>names = [''CaseID'', ''Offset'', ''DataID'', ''Val'', ''LaboratoryID'', ''variableid'',
               ''itemid''],
      rows =
        [(\<lambda>_. Null)(''CaseID'' := IntV 7, ''Offset'' := IntV 12, ''DataID'' := IntV 999,
            ''Val'' := NumV 5, ''LaboratoryID'' := IntV 999, ''variableid'' := IntV 999,
            ''itemid'' := IntV 999)]\<rparr>"

definition ex_unmapped_fs :: "string \<rightharpoonup> node" where
  "ex_unmapped_fs =
     [''data_float_h.csv'' \<mapsto> File ex_unmapped,
      ''laboratory.parquet'' \<mapsto> File ex_unmapped,
      ''observations.parquet'' \<mapsto> File ex_unmapped,
      ''numericitems.csv'' \<mapsto> File ex_unmapped]"

text \<open>An output directory that already holds a vitals file.\<close>

definition st_old :: etl_state where
  "st_old =
     \<lparr>out_files = [''vitals.parquet'' \<mapsto>
        ([''hospitalization_id'', ''recorded_dttm_offset_min'', ''vital_category'', ''vital_value''],
         [(IntV 1, IntV 0, StrV ''spo2'', IntV 97)])],
      console = []\<rparr>"

text \<open>
  An eICU data directory: the wide vitals table of the end-to-end scenario (two rows, the
  heart rate of the second one null) and a lab table with a mapped label, an unmapped label
  and an unmapped label with a null result.
\<close>

definition ex_vitalperiodic :: frame where
  "ex_vitalperiodic =
     \<lparr>names = [''patientunitstayid'', ''observationoffset'', ''heartrate'', ''temperature''],
      rows =
        [(\<lambda>_. Null)(''patientunitstayid'' := IntV 1, ''observationoffset'' := IntV 0,
            ''heartrate'' := IntV 88, ''temperature'' := NumV (371 / 10)),
         (\<lambda>_. Null)(''patientunitstayid'' := IntV 1, ''observationoffset'' := IntV 5,
            ''temperature'' := NumV (372 / 10))]\<rparr>"

definition ex_lab :: frame where
  "ex_lab =
     \<lparr>names = [''patientunitstayid'', ''labresultoffset'', ''labname'', ''labresult''],
      rows =
        [(\<lambda>_. Null)(''patientunitstayid'' := IntV 1, ''labresultoffset'' := IntV 5,
            ''labname'' := StrV ''Glucose'', ''labresult'' := NumV 100),
         (\<lambda>_. Null)(''patientunitstayid'' := IntV 1, ''labresultoffset'' := IntV 6,
            ''labname'' := StrV ''Foo'', ''labresult'' := NumV 7),
         (\<lambda>_. Null)(''patientunitstayid'' := IntV 1, ''labresultoffset'' := IntV 7,
            ''labname'' := StrV ''Foo'')]\<rparr>"

definition ex_eicu_fs :: "string \<rightharpoonup> node" where
  "ex_eicu_fs = [''vitalperiodic.csv'' \<mapsto> File ex_vitalperiodic, ''lab.csv'' \<mapsto> File ex_lab]"

text \<open>
  A data directory with the HiRID observations as a directory of one parquet part and the
  AUMC numeric items as a csv file. Identifier 200 (HiRID) and 6640 (AUMC) are claimed by
  a vitals entry and by a labs entry of the mapping tables above.
\<close>

definition ex_observations :: frame where
  "ex_observations =
     \<lparr>names = [''patientid'', ''datetime'', ''variableid'', ''value''],
      rows =
        [(\<lambda>_. Null)(''patientid'' := IntV 1, ''datetime'' := IntV 100, ''variableid'' := IntV 200,
            ''value'' := NumV (55 / 10)),
         (\<lambda>_. Null)(''patientid'' := IntV 1, ''datetime'' := IntV 101, ''variableid'' := IntV 24000524,
            ''value'' := NumV (12 / 10)),
         (\<lambda>_. Null)(''patientid'' := IntV 1, ''datetime'' := IntV 102, ''variableid'' := IntV 410,
            ''value'' := NumV 37),
         (\<lambda>_. Null)(''patientid'' := IntV 1, ''datetime'' := IntV 103, ''variableid'' := IntV 999,
            ''value'' := NumV 1),
         (\<lambda>_. Null)(''patientid'' := IntV 2, ''datetime'' := IntV 100,
            ''variableid'' := IntV 24000585)]\<rparr>"

definition ex_numericitems :: frame where
  "ex_numericitems =
     \<lparr>names = [''admissionid'', ''measuredat'', ''itemid'', ''value''],
      rows =
        [(\<lambda>_. Null)(''admissionid'' := IntV 3, ''measuredat'' := IntV 1000, ''itemid'' := IntV 9947,
            ''value'' := NumV (61 / 10)),
         (\<lambda>_. Null)(''admissionid'' := IntV 3, ''measuredat'' := IntV 2000, ''itemid'' := IntV 8658,
            ''value'' := NumV 36)]\<rparr>"

definition ex_merged_fs :: "string \<rightharpoonup> node" where
  "ex_merged_fs =
     [''observation_tables'' \<mapsto> Dir [(''part-0.parquet'', ex_observations)],
      ''numericitems.csv'' \<mapsto> File ex_numericitems]"

section \<open>Properties\<close>

subsection \<open>The resolver overlays what it reads on the dictionary it starts from\<close>






subsection \<open>State and column lemmas\<close>

lemma out_files_print [simp]: "out_files (print m st) = out_files st"
  by (simp add: print_def)

lemma console_print [simp]: "console (print m st) = console st @ [m]"
  by (simp add: print_def)

lemma out_files_write [simp]: "out_files (write_parquet f p st) = (out_files st)(f \<mapsto> p)"
  by (simp add: write_parquet_def)

lemma console_write [simp]: "console (write_parquet f p st) = console st"
  by (simp add: write_parquet_def)

lemma print_console: "print m st = st\<lparr>console := console st @ [m]\<rparr>"
  by (simp add: print_def)

lemma transform_long_no_match:
  assumes "id_col \<in> set (names df)"
    and "\<not> list_ex (\<lambda>r. is_in (r id_col) (keys id_map)) (rows df)"
  shows "transform_long id_col enc tm val time_name cat val_name f id_map df st =
           Inr (print (NoMatching id_col) st)"
proof -
  from assms(2) have "filter (\<lambda>r. is_in (r id_col) (keys id_map)) (rows df) = []"
    by (simp add: list_ex_iff filter_empty_conv)
  with assms(1) show ?thesis
    by (simp add: transform_long_def)
qed

lemma eicu_vitals_skip:
  "data_path E ''vitalperiodic.csv'' = None \<Longrightarrow>
     etl_eicu_vitals E st = Inr (print (Skipping ''vitals'' ''vitalperiodic.csv'') st)"
  by (simp add: etl_eicu_vitals_def)

lemma eicu_labs_skip:
  "data_path E ''lab.csv'' = None \<Longrightarrow>
     etl_eicu_labs E st = Inr (print (Skipping ''labs'' ''lab.csv'') st)"
  by (simp add: etl_eicu_labs_def)

lemma sic_vitals_skip:
  "data_path E ''data_float_h.csv'' = None \<Longrightarrow> data_path E ''data_float_h.parquet'' = None \<Longrightarrow>
     etl_sic_vitals E st = Inr (print (Skipping ''vitals'' ''data_float_h'') st)"
  by (simp add: etl_sic_vitals_def csv_or_parquet_def)

lemma sic_labs_skip:
  "data_path E ''laboratory.csv'' = None \<Longrightarrow> data_path E ''laboratory.parquet'' = None \<Longrightarrow>
     etl_sic_labs E st = Inr (print (Skipping ''labs'' ''laboratory'') st)"
  by (simp add: etl_sic_labs_def csv_or_parquet_def)

lemma hirid_vitals_skip:
  "data_path E ''observation_tables'' = None \<Longrightarrow> data_path E ''observations'' = None \<Longrightarrow>
   data_path E ''observations.parquet'' = None \<Longrightarrow>
     etl_hirid_vitals E st = Inr (print (Skipping ''vitals'' ''observations'') st)"
  by (simp add: etl_hirid_vitals_def find_observations_def)

lemma aumc_vitals_skip:
  "data_path E ''numericitems.csv'' = None \<Longrightarrow> data_path E ''numericitems.parquet'' = None \<Longrightarrow>
     etl_aumc_vitals E st = Inr (print (Skipping ''vitals'' ''numericitems'') st)"
  by (simp add: etl_aumc_vitals_def csv_or_parquet_def)

subsection \<open>Facts about the concrete inputs\<close>

lemma ex_etl_sel [simp]:
  "vitals_map (ex_etl src fs) = ex_vitals_map"
  "labs_map (ex_etl src fs) = ex_labs_map"
  "data_path (ex_etl src fs) = fs"
  "source (ex_etl src fs) = src"
  by (simp_all add: ex_etl_def)

lemma ex_sic_vitals_ids:
  "build_id_map ''sic_ids'' ''vital_category'' (names ex_vitals_map) (rows ex_vitals_map) []
   = Inr [(10, StrV ''temp_c''), (20, StrV ''temp_c''), (30, StrV ''temp_c''), (708, StrV ''heart_rate'')]"
  by code_simp

lemma ex_sic_labs_ids:
  "build_id_map ''sic_ids'' ''lab_category'' (names ex_labs_map) (rows ex_labs_map) []
   = Inr [(348, StrV ''glucose''), (465, StrV ''lactate'')]"
  by code_simp

lemma ex_aumc_merged_ids:
  "merged_id_map ''aumc_ids'' (ex_etl src fs)
     = Inr [(8658, StrV ''temp_c''), (6640, StrV ''glucose''), (9947, StrV ''glucose''),
            (10053, StrV ''lactate'')]"
proof -
  have "build_id_map ''aumc_ids'' ''vital_category'' (names ex_vitals_map) (rows ex_vitals_map) []
        = Inr [(8658, StrV ''temp_c''), (6640, StrV ''heart_rate'')]"
    by code_simp
  moreover have "build_id_map ''aumc_ids'' ''lab_category'' (names ex_labs_map) (rows ex_labs_map)
          [(8658, StrV ''temp_c''), (6640, StrV ''heart_rate'')]
        = Inr [(8658, StrV ''temp_c''), (6640, StrV ''glucose''), (9947, StrV ''glucose''),
            (10053, StrV ''lactate'')]"
    by code_simp
  ultimately show ?thesis
    by (simp add: merged_id_map_def)
qed

lemma ex_hirid_vitals_ids:
  "build_id_map ''hirid_ids'' ''vital_category'' (names ex_vitals_map) (rows ex_vitals_map) []
     = Inr [(410, StrV ''temp_c''), (7100, StrV ''temp_c''), (200, StrV ''heart_rate'')]"
  by code_simp


lemma ex_hirid_merged_ids:
  "merged_id_map ''hirid_ids'' (ex_etl src fs)
     = Inr [(410, StrV ''temp_c''), (7100, StrV ''temp_c''), (200, StrV ''glucose''),
            (24000585, StrV ''glucose''), (24000524, StrV ''lactate'')]"
proof -
  have "build_id_map ''hirid_ids'' ''lab_category'' (names ex_labs_map) (rows ex_labs_map)
          [(410, StrV ''temp_c''), (7100, StrV ''temp_c''), (200, StrV ''heart_rate'')]
        = Inr [(410, StrV ''temp_c''), (7100, StrV ''temp_c''), (200, StrV ''glucose''),
            (24000585, StrV ''glucose''), (24000524, StrV ''lactate'')]"
    by code_simp
  then show ?thesis
    by (simp add: merged_id_map_def ex_etl_def ex_hirid_vitals_ids)
qed


lemma ex_unmapped_no_key:
  "''DataID'' \<in> set (names ex_unmapped)" "''LaboratoryID'' \<in> set (names ex_unmapped)"
  "''variableid'' \<in> set (names ex_unmapped)" "''itemid'' \<in> set (names ex_unmapped)"
  "\<not> list_ex (\<lambda>r. is_in (r ''DataID'') (keys [(10, StrV ''temp_c''), (20, StrV ''temp_c''),
       (30, StrV ''temp_c''), (708, StrV ''heart_rate'')])) (rows ex_unmapped)"
  "\<not> list_ex (\<lambda>r. is_in (r ''LaboratoryID'') (keys [(348, StrV ''glucose''), (465, StrV ''lactate'')]))
       (rows ex_unmapped)"
  "\<not> list_ex (\<lambda>r. is_in (r ''variableid'') (keys [(410, StrV ''temp_c''), (7100, StrV ''temp_c''),
       (200, StrV ''glucose''), (24000585, StrV ''glucose''), (24000524, StrV ''lactate'')]))
       (rows ex_unmapped)"
  "\<not> list_ex (\<lambda>r. is_in (r ''itemid'') (keys [(8658, StrV ''temp_c''), (6640, StrV ''glucose''),
       (9947, StrV ''glucose''), (10053, StrV ''lactate'')])) (rows ex_unmapped)"
  by (simp_all add: ex_unmapped_def is_in_def keys_def)

lemma ex_unmapped_files:
  "csv_or_parquet ex_unmapped_fs ''data_float_h.csv'' ''data_float_h.parquet''
     = Some (''data_float_h.csv'', File ex_unmapped)"
  "csv_or_parquet ex_unmapped_fs ''laboratory.csv'' ''laboratory.parquet''
     = Some (''laboratory.parquet'', File ex_unmapped)"
  "csv_or_parquet ex_unmapped_fs ''numericitems.csv'' ''numericitems.parquet''
     = Some (''numericitems.csv'', File ex_unmapped)"
  "find_observations ex_unmapped_fs = (None, Some (File ex_unmapped))"
  "read_observations (None, Some (File ex_unmapped)) = Inr ex_unmapped"
  by (simp_all add: csv_or_parquet_def ex_unmapped_fs_def find_observations_def
        read_observations_def read_table_def)

subsection \<open>Last write wins\<close>





subsection \<open>The numeric resolver on malformed identifiers\<close>

text \<open>
  C7. The list \<open>10; 20;30\<close> resolves to exactly the keys 10, 20 and 30, each mapping to the
  category, and an element such as \<open>x12\<close> that is not all digits is left out without an
  error. But an element made of the superscript two passes \<open>isdigit\<close>, \<open>int\<close> rejects
  it, and the resolver, and with it the adapter, ends in \<open>ValueError\<close> instead of leaving
  the element out.
\<close>

theorem sic_resolver_superscript_digit:
  "build_id_map ''sic_ids'' ''vital_category'' (names ex_vitals_map) [hd (rows ex_vitals_map)] []
     = Inr [(10, StrV ''temp_c''), (20, StrV ''temp_c''), (30, StrV ''temp_c'')]
   \<and> map py_strip (py_split CHR '';'' ''465; x12'') = [''465'', ''x12'']
   \<and> build_id_map ''sic_ids'' ''lab_category'' (names ex_labs_map) [last (rows ex_labs_map)] []
     = Inr [(465, StrV ''lactate'')]
   \<and> py_isdigit [CHR 0xB2]
   \<and> py_int [CHR 0xB2] = Inl ValueError
   \<and> build_id_map ''sic_ids'' ''vital_category''
        (names ex_superscript_map) (rows ex_superscript_map) [] = Inl ValueError
   \<and> etl_sic_vitals ((ex_etl ''sic'' ex_sic_fs)\<lparr>vitals_map := ex_superscript_map\<rparr>) st0
        = Inl ValueError"
proof -
  have 1: "build_id_map ''sic_ids'' ''vital_category''
        (names ex_superscript_map) (rows ex_superscript_map) [] = Inl ValueError"
    by code_simp
  have 2: "etl_sic_vitals ((ex_etl ''sic'' ex_sic_fs)\<lparr>vitals_map := ex_superscript_map\<rparr>) st0
        = Inl ValueError"
    by (simp add: etl_sic_vitals_def csv_or_parquet_def ex_etl_def ex_sic_fs_def 1)
  have 3: "build_id_map ''sic_ids'' ''vital_category'' (names ex_vitals_map) [hd (rows ex_vitals_map)] []
     = Inr [(10, StrV ''temp_c''), (20, StrV ''temp_c''), (30, StrV ''temp_c'')]"
    by code_simp
  have 4: "map py_strip (py_split CHR '';'' ''465; x12'') = [''465'', ''x12'']"
    by code_simp
  have 5: "build_id_map ''sic_ids'' ''lab_category'' (names ex_labs_map) [last (rows ex_labs_map)] []
     = Inr [(465, StrV ''lactate'')]"
    by code_simp
  have 6: "py_isdigit [CHR 0xB2]" by code_simp
  have 7: "py_int [CHR 0xB2] = Inl ValueError" by code_simp
  from 1 2 3 4 5 6 7 show ?thesis by blast
qed


subsection \<open>The label resolver does not split\<close>

text \<open>
  C3. The label resolver of the eICU labs adapter takes the identifier field of an entry as
  one key: the field \<open>Glucose; bedside glucose\<close> gives the single lower-cased key
  \<open>glucose; bedside glucose\<close>, and neither \<open>glucose\<close> nor \<open>bedside glucose\<close> is a key.
\<close>

theorem eicu_lab_map_keeps_list_whole:
  "build_lab_map (names ex_eicu_list_map) (rows ex_eicu_list_map) []
     = Inr [(''glucose; bedside glucose'', StrV ''glucose'')]
   \<and> map_of [(''glucose; bedside glucose'', StrV ''glucose'')] ''glucose'' = None
   \<and> map_of [(''glucose; bedside glucose'', StrV ''glucose'')] ''bedside glucose'' = None"
proof -
  have "build_lab_map (names ex_eicu_list_map) (rows ex_eicu_list_map) []
     = Inr [(''glucose; bedside glucose'', StrV ''glucose'')]"
    by code_simp
  then show ?thesis by simp
qed


subsection \<open>Loading a mapping table\<close>

text \<open>
  C4, as stated, at two candidate files: the load does not fail, it returns the table of the
  first file.
\<close>

theorem load_mappings_first_of_several:
  "load_mappings [ex_vitals_map, ex_labs_map] = Inr ex_vitals_map"
  by (simp add: load_mappings_def)


text \<open>
  C4, amended. Loading the mapping table of a concept domain fails with
  \<open>FileNotFoundError\<close> when there is no candidate file; when there is one or more, it
  reads the first one in the order of the glob and does not fail.
\<close>

theorem load_mappings_result:
  "load_mappings [] = Inl FileNotFoundError \<and> load_mappings (f # fs) = Inr f"
  by (simp add: load_mappings_def)

subsection \<open>No matching row: a warning and no file\<close>

text \<open>
  C1, as stated, at a SICdb table none of whose rows has a mapped identifier: the adapter
  returns normally with the warning on the console, and the output directory has no vitals
  file.
\<close>

theorem sic_vitals_no_match_no_file:
  "map_sum id (\<lambda>st. (out_files st ''vitals.parquet'', console st))
     (etl_sic_vitals (ex_etl ''sic'' ex_unmapped_fs) st0)
   = Inr (None, [Processing ''vitals'' ''data_float_h.csv'', Mapping 4 ''SIC DataIDs'',
                 NoMatching ''DataID''])"
  by (simp add: etl_sic_vitals_def csv_or_parquet_def ex_unmapped_fs_def ex_sic_vitals_ids
        read_table_def transform_long_def ex_unmapped_def is_in_def keys_def st0_def print_def)

text \<open>
  C1, amended. For every identifier-keyed adapter run (SICdb vitals, SICdb labs, HiRID, AUMC)
  whose native file exists and has the identifier column: if no source row is left after the
  filter to the mapped identifiers, no output file is written, the output directory stays as
  it was, and the outcome is a warning line on the console, not a failure.
\<close>

theorem no_matching_rows_write_nothing:
  "(csv_or_parquet (data_path E) ''data_float_h.csv'' ''data_float_h.parquet'' = Some (n1, File df1) \<and>
    build_id_map ''sic_ids'' ''vital_category'' (names (vitals_map E)) (rows (vitals_map E)) [] = Inr m1 \<and>
    ''DataID'' \<in> set (names df1) \<and>
    \<not> list_ex (\<lambda>r. is_in (r ''DataID'') (keys m1)) (rows df1)
    \<longrightarrow> etl_sic_vitals E st =
          Inr (st\<lparr>console := console st @
                [Processing ''vitals'' n1, Mapping (length m1) ''SIC DataIDs'', NoMatching ''DataID'']\<rparr>))
   \<and>
   (csv_or_parquet (data_path E) ''laboratory.csv'' ''laboratory.parquet'' = Some (n2, File df2) \<and>
    build_id_map ''sic_ids'' ''lab_category'' (names (labs_map E)) (rows (labs_map E)) [] = Inr m2 \<and>
    ''LaboratoryID'' \<in> set (names df2) \<and>
    \<not> list_ex (\<lambda>r. is_in (r ''LaboratoryID'') (keys m2)) (rows df2)
    \<longrightarrow> etl_sic_labs E st =
          Inr (st\<lparr>console := console st @
                [Processing ''labs'' n2, Mapping (length m2) ''SIC LaboratoryIDs'',
                 NoMatching ''LaboratoryID'']\<rparr>))
   \<and>
   (find_observations (data_path E) \<noteq> (None, None) \<and>
    read_observations (find_observations (data_path E)) = Inr df3 \<and>
    merged_id_map ''hirid_ids'' E = Inr m3 \<and>
    ''variableid'' \<in> set (names df3) \<and>
    \<not> list_ex (\<lambda>r. is_in (r ''variableid'') (keys m3)) (rows df3)
    \<longrightarrow> etl_hirid_vitals E st =
          Inr (st\<lparr>console := console st @
                [Processing ''vitals'' ''observations'', Mapping (length m3) ''HiRID variableids'',
                 NoMatching ''variableid'']\<rparr>))
   \<and>
   (csv_or_parquet (data_path E) ''numericitems.csv'' ''numericitems.parquet'' = Some (n4, File df4) \<and>
    merged_id_map ''aumc_ids'' E = Inr m4 \<and>
    ''itemid'' \<in> set (names df4) \<and>
    \<not> list_ex (\<lambda>r. is_in (r ''itemid'') (keys m4)) (rows df4)
    \<longrightarrow> etl_aumc_vitals E st =
          Inr (st\<lparr>console := console st @
                [Processing ''vitals'' n4, Mapping (length m4) ''AUMC itemids'', NoMatching ''itemid'']\<rparr>))"
proof (intro conjI impI)
  assume "csv_or_parquet (data_path E) ''data_float_h.csv'' ''data_float_h.parquet'' = Some (n1, File df1) \<and>
    build_id_map ''sic_ids'' ''vital_category'' (names (vitals_map E)) (rows (vitals_map E)) [] = Inr m1 \<and>
    ''DataID'' \<in> set (names df1) \<and>
    \<not> list_ex (\<lambda>r. is_in (r ''DataID'') (keys m1)) (rows df1)"
  then show "etl_sic_vitals E st =
          Inr (st\<lparr>console := console st @
                [Processing ''vitals'' n1, Mapping (length m1) ''SIC DataIDs'', NoMatching ''DataID'']\<rparr>)"
    by (simp add: etl_sic_vitals_def read_table_def transform_long_no_match print_console)
next
  assume "csv_or_parquet (data_path E) ''laboratory.csv'' ''laboratory.parquet'' = Some (n2, File df2) \<and>
    build_id_map ''sic_ids'' ''lab_category'' (names (labs_map E)) (rows (labs_map E)) [] = Inr m2 \<and>
    ''LaboratoryID'' \<in> set (names df2) \<and>
    \<not> list_ex (\<lambda>r. is_in (r ''LaboratoryID'') (keys m2)) (rows df2)"
  then show "etl_sic_labs E st =
          Inr (st\<lparr>console := console st @
                [Processing ''labs'' n2, Mapping (length m2) ''SIC LaboratoryIDs'',
                 NoMatching ''LaboratoryID'']\<rparr>)"
    by (simp add: etl_sic_labs_def read_table_def transform_long_no_match print_console)
next
  assume "find_observations (data_path E) \<noteq> (None, None) \<and>
    read_observations (find_observations (data_path E)) = Inr df3 \<and>
    merged_id_map ''hirid_ids'' E = Inr m3 \<and>
    ''variableid'' \<in> set (names df3) \<and>
    \<not> list_ex (\<lambda>r. is_in (r ''variableid'') (keys m3)) (rows df3)"
  then show "etl_hirid_vitals E st =
          Inr (st\<lparr>console := console st @
                [Processing ''vitals'' ''observations'', Mapping (length m3) ''HiRID variableids'',
                 NoMatching ''variableid'']\<rparr>)"
    by (simp add: etl_hirid_vitals_def transform_long_no_match print_console)
next
  assume "csv_or_parquet (data_path E) ''numericitems.csv'' ''numericitems.parquet'' = Some (n4, File df4) \<and>
    merged_id_map ''aumc_ids'' E = Inr m4 \<and>
    ''itemid'' \<in> set (names df4) \<and>
    \<not> list_ex (\<lambda>r. is_in (r ''itemid'') (keys m4)) (rows df4)"
  then show "etl_aumc_vitals E st =
          Inr (st\<lparr>console := console st @
                [Processing ''vitals'' n4, Mapping (length m4) ''AUMC itemids'', NoMatching ''itemid'']\<rparr>)"
    by (simp add: etl_aumc_vitals_def read_table_def transform_long_no_match print_console)
qed

theorem no_matching_rows_write_nothing_witness:
  "etl_sic_vitals (ex_etl ''sic'' ex_unmapped_fs) st_old =
     Inr (st_old\<lparr>console := console st_old @
            [Processing ''vitals'' ''data_float_h.csv'', Mapping 4 ''SIC DataIDs'',
             NoMatching ''DataID'']\<rparr>)
   \<and> etl_sic_labs (ex_etl ''sic'' ex_unmapped_fs) st_old =
     Inr (st_old\<lparr>console := console st_old @
            [Processing ''labs'' ''laboratory.parquet'', Mapping 2 ''SIC LaboratoryIDs'',
             NoMatching ''LaboratoryID'']\<rparr>)
   \<and> etl_hirid_vitals (ex_etl ''sic'' ex_unmapped_fs) st_old =
     Inr (st_old\<lparr>console := console st_old @
            [Processing ''vitals'' ''observations'', Mapping 5 ''HiRID variableids'',
             NoMatching ''variableid'']\<rparr>)
   \<and> etl_aumc_vitals (ex_etl ''sic'' ex_unmapped_fs) st_old =
     Inr (st_old\<lparr>console := console st_old @
            [Processing ''vitals'' ''numericitems.csv'', Mapping 4 ''AUMC itemids'',
             NoMatching ''itemid'']\<rparr>)"
  using no_matching_rows_write_nothing
    [where E = "ex_etl ''sic'' ex_unmapped_fs" and st = st_old
       and ?n1.0 = "''data_float_h.csv''" and ?df1.0 = ex_unmapped
       and ?m1.0 = "[(10, StrV ''temp_c''), (20, StrV ''temp_c''), (30, StrV ''temp_c''),
                     (708, StrV ''heart_rate'')]"
       and ?n2.0 = "''laboratory.parquet''" and ?df2.0 = ex_unmapped
       and ?m2.0 = "[(348, StrV ''glucose''), (465, StrV ''lactate'')]"
       and ?df3.0 = ex_unmapped
       and ?m3.0 = "[(410, StrV ''temp_c''), (7100, StrV ''temp_c''), (200, StrV ''glucose''),
                     (24000585, StrV ''glucose''), (24000524, StrV ''lactate'')]"
       and ?n4.0 = "''numericitems.csv''" and ?df4.0 = ex_unmapped
       and ?m4.0 = "[(8658, StrV ''temp_c''), (6640, StrV ''glucose''), (9947, StrV ''glucose''),
                     (10053, StrV ''lactate'')]"]
  by (simp add: ex_unmapped_files ex_unmapped_no_key ex_sic_vitals_ids ex_sic_labs_ids
        ex_hirid_merged_ids ex_aumc_merged_ids)

subsection \<open>A missing native file\<close>

text \<open>
  C9. Every adapter whose required native source is absent writes no output file, raises no
  error and leaves the output directory as it was, with a line on the console; the run of the
  dataset goes on with the remaining adapter (the labs adapter for eICU and SICdb, the labs
  step for HiRID and AUMC).
\<close>

theorem missing_input_skips:
  "(data_path E ''vitalperiodic.csv'' = None
      \<longrightarrow> etl_eicu_vitals E st =
            Inr (st\<lparr>console := console st @ [Skipping ''vitals'' ''vitalperiodic.csv'']\<rparr>)
        \<and> etl_eicu E st =
            etl_eicu_labs E
              (print (Skipping ''vitals'' ''vitalperiodic.csv'')
                 (check_required (data_path E) [''patient.csv'', ''vitalperiodic.csv'', ''lab.csv'']
                    (print (Starting ''eICU'') st))))
   \<and> (data_path E ''lab.csv'' = None
      \<longrightarrow> etl_eicu_labs E st = Inr (st\<lparr>console := console st @ [Skipping ''labs'' ''lab.csv'']\<rparr>))
   \<and> (data_path E ''data_float_h.csv'' = None \<and> data_path E ''data_float_h.parquet'' = None
      \<longrightarrow> etl_sic_vitals E st =
            Inr (st\<lparr>console := console st @ [Skipping ''vitals'' ''data_float_h'']\<rparr>)
        \<and> etl_sic E st =
            etl_sic_labs E (st\<lparr>console := console st @
                              [Starting ''SICdb'', Skipping ''vitals'' ''data_float_h'']\<rparr>))
   \<and> (data_path E ''laboratory.csv'' = None \<and> data_path E ''laboratory.parquet'' = None
      \<longrightarrow> etl_sic_labs E st = Inr (st\<lparr>console := console st @ [Skipping ''labs'' ''laboratory'']\<rparr>))
   \<and> (data_path E ''observation_tables'' = None \<and> data_path E ''observations'' = None \<and>
      data_path E ''observations.parquet'' = None
      \<longrightarrow> etl_hirid_vitals E st =
            Inr (st\<lparr>console := console st @ [Skipping ''vitals'' ''observations'']\<rparr>)
        \<and> etl_hirid E st =
            Inr (st\<lparr>console := console st @
                   [Starting ''HiRID'', Skipping ''vitals'' ''observations'',
                    LabsIncluded ''observations'']\<rparr>))
   \<and> (data_path E ''numericitems.csv'' = None \<and> data_path E ''numericitems.parquet'' = None
      \<longrightarrow> etl_aumc_vitals E st =
            Inr (st\<lparr>console := console st @ [Skipping ''vitals'' ''numericitems'']\<rparr>)
        \<and> etl_aumc E st =
            Inr (st\<lparr>console := console st @
                   [Starting ''AUMC'', Skipping ''vitals'' ''numericitems'',
                    LabsIncluded ''numericitems'']\<rparr>))"
proof (intro conjI impI)
  assume "data_path E ''vitalperiodic.csv'' = None"
  then show "etl_eicu_vitals E st =
      Inr (st\<lparr>console := console st @ [Skipping ''vitals'' ''vitalperiodic.csv'']\<rparr>)"
    by (simp add: eicu_vitals_skip print_def)
next
  assume "data_path E ''vitalperiodic.csv'' = None"
  then show "etl_eicu E st =
      etl_eicu_labs E
        (print (Skipping ''vitals'' ''vitalperiodic.csv'')
           (check_required (data_path E) [''patient.csv'', ''vitalperiodic.csv'', ''lab.csv'']
              (print (Starting ''eICU'') st)))"
    by (simp only: etl_eicu_def Let_def eicu_vitals_skip sum.case)
next
  assume "data_path E ''lab.csv'' = None"
  then show "etl_eicu_labs E st = Inr (st\<lparr>console := console st @ [Skipping ''labs'' ''lab.csv'']\<rparr>)"
    by (simp add: eicu_labs_skip print_def)
next
  assume a: "data_path E ''data_float_h.csv'' = None \<and> data_path E ''data_float_h.parquet'' = None"
  then show "etl_sic_vitals E st =
      Inr (st\<lparr>console := console st @ [Skipping ''vitals'' ''data_float_h'']\<rparr>)"
    by (simp add: sic_vitals_skip print_def)
  from a show "etl_sic E st =
      etl_sic_labs E (st\<lparr>console := console st @
                        [Starting ''SICdb'', Skipping ''vitals'' ''data_float_h'']\<rparr>)"
    by (simp add: etl_sic_def sic_vitals_skip print_def)
next
  assume "data_path E ''laboratory.csv'' = None \<and> data_path E ''laboratory.parquet'' = None"
  then show "etl_sic_labs E st = Inr (st\<lparr>console := console st @ [Skipping ''labs'' ''laboratory'']\<rparr>)"
    by (simp add: sic_labs_skip print_def)
next
  assume a: "data_path E ''observation_tables'' = None \<and> data_path E ''observations'' = None \<and>
      data_path E ''observations.parquet'' = None"
  then show "etl_hirid_vitals E st =
      Inr (st\<lparr>console := console st @ [Skipping ''vitals'' ''observations'']\<rparr>)"
    by (simp add: hirid_vitals_skip print_def)
  from a show "etl_hirid E st =
      Inr (st\<lparr>console := console st @
             [Starting ''HiRID'', Skipping ''vitals'' ''observations'',
              LabsIncluded ''observations'']\<rparr>)"
    by (simp add: etl_hirid_def etl_hirid_labs_def hirid_vitals_skip print_def)
next
  assume a: "data_path E ''numericitems.csv'' = None \<and> data_path E ''numericitems.parquet'' = None"
  then show "etl_aumc_vitals E st =
      Inr (st\<lparr>console := console st @ [Skipping ''vitals'' ''numericitems'']\<rparr>)"
    by (simp add: aumc_vitals_skip print_def)
  from a show "etl_aumc E st =
      Inr (st\<lparr>console := console st @
             [Starting ''AUMC'', Skipping ''vitals'' ''numericitems'',
              LabsIncluded ''numericitems'']\<rparr>)"
    by (simp add: etl_aumc_def etl_aumc_labs_def aumc_vitals_skip print_def)
qed

theorem missing_input_skips_witness:
  "etl_eicu_vitals (ex_etl ''eicu'' Map.empty) st_old =
     Inr (st_old\<lparr>console := [Skipping ''vitals'' ''vitalperiodic.csv'']\<rparr>)
   \<and> etl_eicu_labs (ex_etl ''eicu'' Map.empty) st_old =
     Inr (st_old\<lparr>console := [Skipping ''labs'' ''lab.csv'']\<rparr>)
   \<and> etl_eicu (ex_etl ''eicu'' Map.empty) st_old =
     Inr (st_old\<lparr>console := [Starting ''eICU'', Missing ''patient.csv'', Missing ''vitalperiodic.csv'',
            Missing ''lab.csv'', Skipping ''vitals'' ''vitalperiodic.csv'', Skipping ''labs'' ''lab.csv'']\<rparr>)
   \<and> etl_sic_vitals (ex_etl ''eicu'' Map.empty) st_old =
     Inr (st_old\<lparr>console := [Skipping ''vitals'' ''data_float_h'']\<rparr>)
   \<and> etl_sic_labs (ex_etl ''eicu'' Map.empty) st_old =
     Inr (st_old\<lparr>console := [Skipping ''labs'' ''laboratory'']\<rparr>)
   \<and> etl_sic (ex_etl ''eicu'' Map.empty) st_old =
     Inr (st_old\<lparr>console := [Starting ''SICdb'', Skipping ''vitals'' ''data_float_h'',
            Skipping ''labs'' ''laboratory'']\<rparr>)
   \<and> etl_hirid (ex_etl ''eicu'' Map.empty) st_old =
     Inr (st_old\<lparr>console := [Starting ''HiRID'', Skipping ''vitals'' ''observations'',
            LabsIncluded ''observations'']\<rparr>)
   \<and> etl_aumc (ex_etl ''eicu'' Map.empty) st_old =
     Inr (st_old\<lparr>console := [Starting ''AUMC'', Skipping ''vitals'' ''numericitems'',
            LabsIncluded ''numericitems'']\<rparr>)"
proof -
  have c: "console st_old = []"
    by (simp add: st_old_def)
  note m = missing_input_skips [where E = "ex_etl ''eicu'' Map.empty"]
  have labs: "etl_eicu_labs (ex_etl ''eicu'' Map.empty) st =
                Inr (st\<lparr>console := console st @ [Skipping ''labs'' ''lab.csv'']\<rparr>)" for st
    using m [of st] by simp
  have slabs: "etl_sic_labs (ex_etl ''eicu'' Map.empty) st =
                Inr (st\<lparr>console := console st @ [Skipping ''labs'' ''laboratory'']\<rparr>)" for st
    using m [of st] by simp
  show ?thesis
    using m [of st_old] by (simp add: c labs slabs print_def)
qed

subsection \<open>The label-keyed adapter\<close>

lemma ex_eicu_lab_map:
  "build_lab_map (names ex_labs_map) (rows ex_labs_map) []
     = Inr [(''glucose'', StrV ''glucose''), (''lactate'', StrV ''lactate'')]"
  by code_simp

lemma ex_eicu_files [simp]:
  "ex_eicu_fs ''lab.csv'' = Some (File ex_lab)"
  "ex_eicu_fs ''vitalperiodic.csv'' = Some (File ex_vitalperiodic)"
  by (simp_all add: ex_eicu_fs_def)

lemma py_lower_examples: "py_lower ''Glucose'' = ''glucose''" "py_lower ''Foo'' = ''foo''"
  by code_simp+

text \<open>
  C2, as stated, at a lab table with the unmapped label \<open>Foo\<close>: the row with a result is
  written, and its category is the string \<open>foo\<close>, not null.
\<close>

theorem eicu_labs_unmapped_keeps_label:
  "map_sum id (\<lambda>st. out_files st ''labs.parquet'') (etl_eicu_labs (ex_etl ''eicu'' ex_eicu_fs) st0)
   = Inr (Some ([''hospitalization_id'', ''lab_collect_dttm_offset_min'', ''lab_category'', ''lab_value''],
                [(IntV 1, IntV 5, StrV ''glucose'', NumV 100),
                 (IntV 1, IntV 6, StrV ''foo'', NumV 7)]))"
proof -
  have low: "py_lower ''Glucose'' = ''glucose''" "py_lower ''Foo'' = ''foo''"
    by code_simp+
  show ?thesis
    by (simp add: etl_eicu_labs_def ex_eicu_fs_def ex_eicu_lab_map read_table_def ex_lab_def
          is_string_column_def replace_str_def to_lowercase_def low is_not_null_def st0_def)
qed

text \<open>
  C2, amended. For the label-keyed adapter (eICU labs), every source row whose lower-cased
  label has no entry in the Resolved Lookup appears in the output with its lower-cased label
  as the category (a null label stays null); it is not dropped at the mapping stage. A row
  whose label has an entry gets the entry's category. Only rows with a null value are
  dropped.
\<close>

theorem eicu_labs_rows:
  assumes src: "data_path E ''lab.csv'' = Some (File df)"
    and lookup: "build_lab_map (names (labs_map E)) (rows (labs_map E)) [] = Inr lab_map"
    and cols: "list_all (\<lambda>c. c \<in> set (names df))
                 [''patientunitstayid'', ''labresultoffset'', ''labname'', ''labresult'']"
    and str: "is_string_column ''labname'' (rows df)"
  shows "etl_eicu_labs E st =
           Inr (let out = map (\<lambda>r. (r ''patientunitstayid'', r ''labresultoffset'',
                                    (case r ''labname'' of
                                       StrV s \<Rightarrow> (case map_of lab_map (py_lower s) of
                                                    Some c \<Rightarrow> c
                                                  | None \<Rightarrow> StrV (py_lower s))
                                     | other \<Rightarrow> other),
                                    r ''labresult''))
                            (filter (\<lambda>r. r ''labresult'' \<noteq> Null) (rows df))
                in st\<lparr>out_files := (out_files st)(''labs.parquet'' \<mapsto>
                          ([''hospitalization_id'', ''lab_collect_dttm_offset_min'', ''lab_category'',
                            ''lab_value''], out)),
                      console := console st @ [Processing ''labs'' ''lab.csv'',
                                               Wrote (length out) ''labs.parquet'']\<rparr>)"
proof -
  have cat: "replace_str lab_map (to_lowercase c) =
        (case c of
           StrV s \<Rightarrow> (case map_of lab_map (py_lower s) of Some c \<Rightarrow> c | None \<Rightarrow> StrV (py_lower s))
         | other \<Rightarrow> other)" for c
    by (cases c) (simp_all add: replace_str_def to_lowercase_def)
  from assms show ?thesis
    by (simp add: etl_eicu_labs_def read_table_def Let_def o_def is_not_null_def filter_map cat
          print_def write_parquet_def)
qed

theorem eicu_labs_rows_witness:
  "etl_eicu_labs (ex_etl ''eicu'' ex_eicu_fs) st_old =
     Inr (st_old\<lparr>out_files := (out_files st_old)(''labs.parquet'' \<mapsto>
            ([''hospitalization_id'', ''lab_collect_dttm_offset_min'', ''lab_category'', ''lab_value''],
             [(IntV 1, IntV 5, StrV ''glucose'', NumV 100), (IntV 1, IntV 6, StrV ''foo'', NumV 7)])),
          console := console st_old @ [Processing ''labs'' ''lab.csv'', Wrote 2 ''labs.parquet'']\<rparr>)"
proof -
  have src: "data_path (ex_etl ''eicu'' ex_eicu_fs) ''lab.csv'' = Some (File ex_lab)"
    by simp
  have lookup: "build_lab_map (names (labs_map (ex_etl ''eicu'' ex_eicu_fs)))
                  (rows (labs_map (ex_etl ''eicu'' ex_eicu_fs))) []
                = Inr [(''glucose'', StrV ''glucose''), (''lactate'', StrV ''lactate'')]"
    by (simp add: ex_eicu_lab_map)
  have cols: "list_all (\<lambda>c. c \<in> set (names ex_lab))
                 [''patientunitstayid'', ''labresultoffset'', ''labname'', ''labresult'']"
    by (simp add: ex_lab_def)
  have str: "is_string_column ''labname'' (rows ex_lab)"
    by (simp add: ex_lab_def is_string_column_def)
  show ?thesis
    using eicu_labs_rows [OF src lookup cols str, of st_old]
    by (simp add: ex_lab_def py_lower_examples)
qed

subsection \<open>The column-keyed adapter\<close>

lemma value_cols_eq:
  "filter (\<lambda>c. c \<notin> set [''patientunitstayid'', ''observationoffset''])
     ([''patientunitstayid'', ''observationoffset''] @ filter P (keys eicu_vital_map))
   = filter P (keys eicu_vital_map)"
proof -
  have "\<forall>c \<in> set (keys eicu_vital_map). c \<notin> set [''patientunitstayid'', ''observationoffset'']"
    by (simp add: keys_def eicu_vital_map_def)
  then have "filter (\<lambda>c. c \<notin> set [''patientunitstayid'', ''observationoffset''])
               (filter P (keys eicu_vital_map)) = filter P (keys eicu_vital_map)"
    by (intro iffD2 [OF filter_id_conv]) simp
  then show ?thesis by simp
qed

lemma unpivot_length: "length (unpivot on vn valn rs) = length rs * length on"
  by (induction on) (simp_all add: unpivot_def)

lemma eicu_vitals_long_rows:
  "filter is_not_null
     (map (\<lambda>r. (r ''patientunitstayid'', r ''observationoffset'', r ''vital_category'', r ''vital_value''))
        (map (\<lambda>r. r(''vital_category'' := replace_str eicu_vital_map (r ''eicu_col'')))
           (unpivot cs ''eicu_col'' ''vital_value'' rs)))
   = concat (map (\<lambda>c. map (\<lambda>r. (r ''patientunitstayid'', r ''observationoffset'',
                                  replace_str eicu_vital_map (StrV c), r c))
                          (filter (\<lambda>r. r c \<noteq> Null) rs)) cs)"
  by (induction cs) (simp_all add: unpivot_def filter_map o_def is_not_null_def)

lemma eicu_vitals_result:
  assumes "data_path E ''vitalperiodic.csv'' = Some (File df)"
    and "''patientunitstayid'' \<in> set (names df)" and "''observationoffset'' \<in> set (names df)"
    and "list_ex (\<lambda>c. c \<in> set (names df)) (keys eicu_vital_map)"
  shows "etl_eicu_vitals E st =
       Inr (let value_cols = filter (\<lambda>c. c \<in> set (names df)) (keys eicu_vital_map);
                out = concat (map (\<lambda>c. map (\<lambda>r. (r ''patientunitstayid'', r ''observationoffset'',
                                                   replace_str eicu_vital_map (StrV c), r c))
                                           (filter (\<lambda>r. r c \<noteq> Null) (rows df))) value_cols)
            in st\<lparr>out_files := (out_files st)(''vitals.parquet'' \<mapsto>
                      ([''hospitalization_id'', ''recorded_dttm_offset_min'', ''vital_category'',
                        ''vital_value''], out)),
                  console := console st @ [Processing ''vitals'' ''vitalperiodic.csv'',
                                           Wrote (length out) ''vitals.parquet'']\<rparr>)"
proof -
  let ?vc = "filter (\<lambda>c. c \<in> set (names df)) (keys eicu_vital_map)"
  from assms(4) have ne: "?vc \<noteq> []"
    by (simp add: list_ex_iff filter_empty_conv)
  have all: "list_all (\<lambda>c. c \<in> set (names df))
               ([''patientunitstayid'', ''observationoffset''] @ ?vc)"
    using assms(2,3) by (simp add: list_all_iff)
  show ?thesis
    unfolding etl_eicu_vitals_def Let_def value_cols_eq eicu_vitals_long_rows
    using assms(1) ne all
    by (simp add: read_table_def print_def write_parquet_def)
qed

lemma ex_vitalperiodic_run:
  "etl_eicu_vitals (ex_etl src ex_eicu_fs) st =
     Inr (st\<lparr>out_files := (out_files st)(''vitals.parquet'' \<mapsto>
            ([''hospitalization_id'', ''recorded_dttm_offset_min'', ''vital_category'', ''vital_value''],
             [(IntV 1, IntV 0, StrV ''temp_c'', NumV (371 / 10)),
              (IntV 1, IntV 5, StrV ''temp_c'', NumV (372 / 10)),
              (IntV 1, IntV 0, StrV ''heart_rate'', IntV 88)])),
          console := console st @ [Processing ''vitals'' ''vitalperiodic.csv'',
                                   Wrote 3 ''vitals.parquet'']\<rparr>)"
proof -
  have src: "data_path (ex_etl src ex_eicu_fs) ''vitalperiodic.csv'' = Some (File ex_vitalperiodic)"
    by simp
  have ns: "''patientunitstayid'' \<in> set (names ex_vitalperiodic)"
    "''observationoffset'' \<in> set (names ex_vitalperiodic)"
    "list_ex (\<lambda>c. c \<in> set (names ex_vitalperiodic)) (keys eicu_vital_map)"
    by (simp_all add: ex_vitalperiodic_def keys_def eicu_vital_map_def)
  have vc: "filter (\<lambda>c. c \<in> set (names ex_vitalperiodic)) (keys eicu_vital_map)
              = [''temperature'', ''heartrate'']"
    by (simp add: ex_vitalperiodic_def keys_def eicu_vital_map_def)
  have cat: "replace_str eicu_vital_map (StrV ''temperature'') = StrV ''temp_c''"
    "replace_str eicu_vital_map (StrV ''heartrate'') = StrV ''heart_rate''"
    by (simp_all add: replace_str_def eicu_vital_map_def)
  show ?thesis
    unfolding eicu_vitals_result [OF src ns] vc Let_def
    by (simp add: cat ex_vitalperiodic_def)
qed

text \<open>
  C8, as stated, at the scenario table: the output has three rows, not two. The temperature
  37.1 at time 0 is an observation of its own, next to the heart rate 88 at time 0 and the
  temperature 37.2 at time 5.
\<close>

theorem eicu_vitals_scenario_three_rows:
  "map_sum id (\<lambda>st. out_files st ''vitals.parquet'') (etl_eicu_vitals (ex_etl ''eicu'' ex_eicu_fs) st0)
   = Inr (Some ([''hospitalization_id'', ''recorded_dttm_offset_min'', ''vital_category'', ''vital_value''],
                [(IntV 1, IntV 0, StrV ''temp_c'', NumV (371 / 10)),
                 (IntV 1, IntV 5, StrV ''temp_c'', NumV (372 / 10)),
                 (IntV 1, IntV 0, StrV ''heart_rate'', IntV 88)]))
   \<and> map_sum id (\<lambda>st. map_option (\<lambda>p. length (snd p)) (out_files st ''vitals.parquet''))
         (etl_eicu_vitals (ex_etl ''eicu'' ex_eicu_fs) st0)
     \<noteq> Inr (Some 2)"
  by (simp add: ex_vitalperiodic_run)

text \<open>
  C8, amended. For the column-keyed (wide) adapter, unpivoting N selected value columns over
  R source rows yields exactly R times N intermediate long rows before null filtering, and
  after filtering exactly the rows with a non-null value remain: for each selected column in
  turn, one row per source row whose cell in that column is not null. A source table with the
  identifier columns, heartrate and temperature and the rows (1,0,88,37.1) and
  (1,5,null,37.2) yields exactly the three canonical rows (1,0,temp_c,37.1),
  (1,5,temp_c,37.2) and (1,0,heart_rate,88): the null heart rate is dropped, not the whole
  source row.
\<close>

theorem eicu_vitals_unpivot:
  "length (unpivot on vn valn rs) = length rs * length on
   \<and>
   (data_path E ''vitalperiodic.csv'' = Some (File df) \<and>
    ''patientunitstayid'' \<in> set (names df) \<and> ''observationoffset'' \<in> set (names df) \<and>
    list_ex (\<lambda>c. c \<in> set (names df)) (keys eicu_vital_map)
    \<longrightarrow> etl_eicu_vitals E st =
          Inr (let value_cols = filter (\<lambda>c. c \<in> set (names df)) (keys eicu_vital_map);
                   out = concat (map (\<lambda>c. map (\<lambda>r. (r ''patientunitstayid'', r ''observationoffset'',
                                                      replace_str eicu_vital_map (StrV c), r c))
                                              (filter (\<lambda>r. r c \<noteq> Null) (rows df))) value_cols)
               in st\<lparr>out_files := (out_files st)(''vitals.parquet'' \<mapsto>
                         ([''hospitalization_id'', ''recorded_dttm_offset_min'', ''vital_category'',
                           ''vital_value''], out)),
                     console := console st @ [Processing ''vitals'' ''vitalperiodic.csv'',
                                              Wrote (length out) ''vitals.parquet'']\<rparr>))
   \<and>
   etl_eicu_vitals (ex_etl ''eicu'' ex_eicu_fs) st0 =
     Inr (st0\<lparr>out_files := (out_files st0)(''vitals.parquet'' \<mapsto>
            ([''hospitalization_id'', ''recorded_dttm_offset_min'', ''vital_category'', ''vital_value''],
             [(IntV 1, IntV 0, StrV ''temp_c'', NumV (371 / 10)),
              (IntV 1, IntV 5, StrV ''temp_c'', NumV (372 / 10)),
              (IntV 1, IntV 0, StrV ''heart_rate'', IntV 88)])),
          console := console st0 @ [Processing ''vitals'' ''vitalperiodic.csv'',
                                    Wrote 3 ''vitals.parquet'']\<rparr>)"
proof (intro conjI impI)
  show "length (unpivot on vn valn rs) = length rs * length on"
    by (rule unpivot_length)
next
  assume "data_path E ''vitalperiodic.csv'' = Some (File df) \<and>
    ''patientunitstayid'' \<in> set (names df) \<and> ''observationoffset'' \<in> set (names df) \<and>
    list_ex (\<lambda>c. c \<in> set (names df)) (keys eicu_vital_map)"
  then show "etl_eicu_vitals E st =
          Inr (let value_cols = filter (\<lambda>c. c \<in> set (names df)) (keys eicu_vital_map);
                   out = concat (map (\<lambda>c. map (\<lambda>r. (r ''patientunitstayid'', r ''observationoffset'',
                                                      replace_str eicu_vital_map (StrV c), r c))
                                              (filter (\<lambda>r. r c \<noteq> Null) (rows df))) value_cols)
               in st\<lparr>out_files := (out_files st)(''vitals.parquet'' \<mapsto>
                         ([''hospitalization_id'', ''recorded_dttm_offset_min'', ''vital_category'',
                           ''vital_value''], out)),
                     console := console st @ [Processing ''vitals'' ''vitalperiodic.csv'',
                                              Wrote (length out) ''vitals.parquet'']\<rparr>)"
    using eicu_vitals_result [of E df st] by blast
next
  show "etl_eicu_vitals (ex_etl ''eicu'' ex_eicu_fs) st0 =
     Inr (st0\<lparr>out_files := (out_files st0)(''vitals.parquet'' \<mapsto>
            ([''hospitalization_id'', ''recorded_dttm_offset_min'', ''vital_category'', ''vital_value''],
             [(IntV 1, IntV 0, StrV ''temp_c'', NumV (371 / 10)),
              (IntV 1, IntV 5, StrV ''temp_c'', NumV (372 / 10)),
              (IntV 1, IntV 0, StrV ''heart_rate'', IntV 88)])),
          console := console st0 @ [Processing ''vitals'' ''vitalperiodic.csv'',
                                    Wrote 3 ''vitals.parquet'']\<rparr>)"
    by (rule ex_vitalperiodic_run)
qed

theorem eicu_vitals_unpivot_witness:
  "length (unpivot [''temperature'', ''heartrate''] ''eicu_col'' ''vital_value'' (rows ex_vitalperiodic)) = 4
   \<and> map_sum id (\<lambda>st. out_files st ''vitals.parquet'')
        (etl_eicu_vitals (ex_etl ''eicu'' ex_eicu_fs) st_old)
     = Inr (Some ([''hospitalization_id'', ''recorded_dttm_offset_min'', ''vital_category'',
                   ''vital_value''],
                  [(IntV 1, IntV 0, StrV ''temp_c'', NumV (371 / 10)),
                   (IntV 1, IntV 5, StrV ''temp_c'', NumV (372 / 10)),
                   (IntV 1, IntV 0, StrV ''heart_rate'', IntV 88)]))"
proof -
  have src: "data_path (ex_etl ''eicu'' ex_eicu_fs) ''vitalperiodic.csv'' = Some (File ex_vitalperiodic)"
    by simp
  have ns: "''patientunitstayid'' \<in> set (names ex_vitalperiodic)"
    "''observationoffset'' \<in> set (names ex_vitalperiodic)"
    "list_ex (\<lambda>c. c \<in> set (names ex_vitalperiodic)) (keys eicu_vital_map)"
    by (simp_all add: ex_vitalperiodic_def keys_def eicu_vital_map_def)
  have vc: "filter (\<lambda>c. c \<in> set (names ex_vitalperiodic)) (keys eicu_vital_map)
              = [''temperature'', ''heartrate'']"
    by (simp add: ex_vitalperiodic_def keys_def eicu_vital_map_def)
  have cat: "replace_str eicu_vital_map (StrV ''temperature'') = StrV ''temp_c''"
    "replace_str eicu_vital_map (StrV ''heartrate'') = StrV ''heart_rate''"
    by (simp_all add: replace_str_def eicu_vital_map_def)
  note u = eicu_vitals_unpivot
    [where on = "[''temperature'', ''heartrate'']" and vn = "''eicu_col''" and valn = "''vital_value''"
       and rs = "rows ex_vitalperiodic" and E = "ex_etl ''eicu'' ex_eicu_fs" and df = ex_vitalperiodic
       and st = st_old]
  from u have "length (unpivot [''temperature'', ''heartrate''] ''eicu_col'' ''vital_value''
                 (rows ex_vitalperiodic)) = length (rows ex_vitalperiodic) * 2"
    by simp
  then have 1: "length (unpivot [''temperature'', ''heartrate''] ''eicu_col'' ''vital_value''
                 (rows ex_vitalperiodic)) = 4"
    by (simp add: ex_vitalperiodic_def)
  from u src ns have "etl_eicu_vitals (ex_etl ''eicu'' ex_eicu_fs) st_old =
          Inr (let value_cols = filter (\<lambda>c. c \<in> set (names ex_vitalperiodic)) (keys eicu_vital_map);
                   out = concat (map (\<lambda>c. map (\<lambda>r. (r ''patientunitstayid'', r ''observationoffset'',
                                                      replace_str eicu_vital_map (StrV c), r c))
                                              (filter (\<lambda>r. r c \<noteq> Null) (rows ex_vitalperiodic))) value_cols)
               in st_old\<lparr>out_files := (out_files st_old)(''vitals.parquet'' \<mapsto>
                         ([''hospitalization_id'', ''recorded_dttm_offset_min'', ''vital_category'',
                           ''vital_value''], out)),
                     console := console st_old @ [Processing ''vitals'' ''vitalperiodic.csv'',
                                              Wrote (length out) ''vitals.parquet'']\<rparr>)"
    by blast
  then have 2: "map_sum id (\<lambda>st. out_files st ''vitals.parquet'')
        (etl_eicu_vitals (ex_etl ''eicu'' ex_eicu_fs) st_old)
     = Inr (Some ([''hospitalization_id'', ''recorded_dttm_offset_min'', ''vital_category'',
                   ''vital_value''],
                  [(IntV 1, IntV 0, StrV ''temp_c'', NumV (371 / 10)),
                   (IntV 1, IntV 5, StrV ''temp_c'', NumV (372 / 10)),
                   (IntV 1, IntV 0, StrV ''heart_rate'', IntV 88)]))"
    unfolding vc Let_def by (simp add: cat ex_vitalperiodic_def)
  from 1 2 show ?thesis by blast
qed

subsection \<open>The category column of the identifier-keyed adapters\<close>

lemma replace_int_cast_fails:
  assumes "\<not> list_all (\<lambda>(k, v). cast_int64 v \<noteq> None) d"
  shows "replace_int d col = Inl InvalidOperationError"
proof -
  from assms have "d \<noteq> []" by auto
  with assms show ?thesis by (simp add: replace_int_def)
qed

lemma transform_long_cast_fails:
  assumes "id_col \<in> set (names df)"
    and "list_ex (\<lambda>r. is_in (r id_col) (keys id_map)) (rows df)"
    and "\<not> list_all (\<lambda>(k, v). cast_int64 v \<noteq> None) id_map"
  shows "transform_long id_col enc tm val time_name cat val_name f id_map df st =
           Inl InvalidOperationError"
proof -
  from assms(2) have "filter (\<lambda>r. is_in (r id_col) (keys id_map)) (rows df) \<noteq> []"
    by (simp add: list_ex_iff filter_empty_conv)
  with assms(1) replace_int_cast_fails [OF assms(3)] show ?thesis
    by (simp add: transform_long_def Let_def)
qed

lemma parse_temp_c: "parse_int64 ''temp_c'' = None"
  by code_simp

lemma ex_merged_files:
  "find_observations ex_merged_fs = (Some (Dir [(''part-0.parquet'', ex_observations)]), None)"
  "read_observations (Some (Dir [(''part-0.parquet'', ex_observations)]), None)
     = Inr ex_observations"
  "csv_or_parquet ex_merged_fs ''numericitems.csv'' ''numericitems.parquet''
     = Some (''numericitems.csv'', File ex_numericitems)"
  by (simp_all add: find_observations_def ex_merged_fs_def read_observations_def glob_def
        ends_with_def scan_files_def csv_or_parquet_def)

text \<open>
  C5. For the identifier-keyed adapter, a source row is to appear in the output if and only
  if its item identifier is a key of the Resolved Lookup and its value is not null. The
  SICdb table below has exactly one such row (case 7, offset 10, identifier 20, value 36.9),
  and the adapter does not write it: the category column is made with \<open>replace\<close> on the
  integer identifier column, the category \<open>temp_c\<close> cannot be cast to an integer, and the
  adapter ends in \<open>InvalidOperationError\<close> before the write.
\<close>

theorem sic_vitals_match_raises:
  "etl_sic_vitals (ex_etl ''sic'' ex_sic_fs) st0 = Inl InvalidOperationError
   \<and> map (\<lambda>r. (r ''CaseID'', r ''Offset'', r ''DataID'', r ''Val''))
        (filter (\<lambda>r. is_in (r ''DataID'') [10, 20, 30, 708] \<and> r ''Val'' \<noteq> Null) (rows ex_sic_float))
     = [(IntV 7, IntV 10, IntV 20, NumV (369 / 10))]"
proof -
  have t: "transform_long ''DataID'' ''CaseID'' ''Offset'' ''Val'' ''recorded_dttm_offset_min''
             ''vital_category'' ''vital_value'' ''vitals.parquet''
             [(10, StrV ''temp_c''), (20, StrV ''temp_c''), (30, StrV ''temp_c''),
              (708, StrV ''heart_rate'')] ex_sic_float st
           = Inl InvalidOperationError" for st
    by (rule transform_long_cast_fails)
       (simp_all add: ex_sic_float_def is_in_def keys_def parse_temp_c)
  have 1: "etl_sic_vitals (ex_etl ''sic'' ex_sic_fs) st0 = Inl InvalidOperationError"
    by (simp add: etl_sic_vitals_def csv_or_parquet_def ex_sic_fs_def ex_sic_vitals_ids
          read_table_def t)
  have 2: "map (\<lambda>r. (r ''CaseID'', r ''Offset'', r ''DataID'', r ''Val''))
        (filter (\<lambda>r. is_in (r ''DataID'') [10, 20, 30, 708] \<and> r ''Val'' \<noteq> Null) (rows ex_sic_float))
     = [(IntV 7, IntV 10, IntV 20, NumV (369 / 10))]"
    by (simp add: ex_sic_float_def is_in_def)
  from 1 2 show ?thesis by (rule conjI)
qed

text \<open>
  C10. For HiRID and AUMC the labs step writes nothing, it only prints a line, and the lab
  observations are to be in the vitals file with their lab category. The observations below
  hold lab rows with a non-null value whose identifier the merged lookup resolves to a lab
  category (identifiers 200 and 24000524 for HiRID, 9947 for AUMC), and the run does not
  write them: \<open>replace\<close> on the integer identifier column cannot cast the categories to
  integers, and the run ends in \<open>InvalidOperationError\<close> before the vitals file is written.
\<close>

theorem hirid_aumc_labs_not_persisted:
  "etl_hirid_labs E st = Inr (st\<lparr>console := console st @ [LabsIncluded ''observations'']\<rparr>)
   \<and> etl_aumc_labs E st = Inr (st\<lparr>console := console st @ [LabsIncluded ''numericitems'']\<rparr>)
   \<and> merged_id_map ''hirid_ids'' (ex_etl ''hirid'' ex_merged_fs)
       = Inr [(410, StrV ''temp_c''), (7100, StrV ''temp_c''), (200, StrV ''glucose''),
              (24000585, StrV ''glucose''), (24000524, StrV ''lactate'')]
   \<and> map (\<lambda>r. (r ''patientid'', r ''datetime'', r ''variableid'', r ''value''))
        (filter (\<lambda>r. is_in (r ''variableid'') [200, 24000585, 24000524] \<and> r ''value'' \<noteq> Null)
           (rows ex_observations))
       = [(IntV 1, IntV 100, IntV 200, NumV (55 / 10)),
          (IntV 1, IntV 101, IntV 24000524, NumV (12 / 10))]
   \<and> etl_hirid (ex_etl ''hirid'' ex_merged_fs) st0 = Inl InvalidOperationError
   \<and> merged_id_map ''aumc_ids'' (ex_etl ''aumc'' ex_merged_fs)
       = Inr [(8658, StrV ''temp_c''), (6640, StrV ''glucose''), (9947, StrV ''glucose''),
              (10053, StrV ''lactate'')]
   \<and> map (\<lambda>r. (r ''admissionid'', r ''measuredat'', r ''itemid'', r ''value''))
        (filter (\<lambda>r. is_in (r ''itemid'') [6640, 9947, 10053] \<and> r ''value'' \<noteq> Null)
           (rows ex_numericitems))
       = [(IntV 3, IntV 1000, IntV 9947, NumV (61 / 10))]
   \<and> etl_aumc (ex_etl ''aumc'' ex_merged_fs) st0 = Inl InvalidOperationError"
proof -
  have th: "transform_long ''variableid'' ''patientid'' ''datetime'' ''value'' ''recorded_dttm''
             ''vital_category'' ''vital_value'' ''vitals.parquet''
             [(410, StrV ''temp_c''), (7100, StrV ''temp_c''), (200, StrV ''glucose''),
              (24000585, StrV ''glucose''), (24000524, StrV ''lactate'')] ex_observations st
           = Inl InvalidOperationError" for st
    by (rule transform_long_cast_fails)
       (simp_all add: ex_observations_def is_in_def keys_def parse_temp_c)
  have ta: "transform_long ''itemid'' ''admissionid'' ''measuredat'' ''value'' ''recorded_dttm''
             ''vital_category'' ''vital_value'' ''vitals.parquet''
             [(8658, StrV ''temp_c''), (6640, StrV ''glucose''), (9947, StrV ''glucose''),
              (10053, StrV ''lactate'')] ex_numericitems st
           = Inl InvalidOperationError" for st
    by (rule transform_long_cast_fails)
       (simp_all add: ex_numericitems_def is_in_def keys_def parse_temp_c)
  have 1: "etl_hirid (ex_etl ''hirid'' ex_merged_fs) st0 = Inl InvalidOperationError"
    by (simp add: etl_hirid_def etl_hirid_vitals_def ex_merged_files ex_hirid_merged_ids th)
  have 2: "etl_aumc (ex_etl ''aumc'' ex_merged_fs) st0 = Inl InvalidOperationError"
    by (simp add: etl_aumc_def etl_aumc_vitals_def ex_merged_files read_table_def
          ex_aumc_merged_ids ta)
  have 3: "map (\<lambda>r. (r ''patientid'', r ''datetime'', r ''variableid'', r ''value''))
        (filter (\<lambda>r. is_in (r ''variableid'') [200, 24000585, 24000524] \<and> r ''value'' \<noteq> Null)
           (rows ex_observations))
       = [(IntV 1, IntV 100, IntV 200, NumV (55 / 10)),
          (IntV 1, IntV 101, IntV 24000524, NumV (12 / 10))]"
    by (simp add: ex_observations_def is_in_def)
  have 4: "map (\<lambda>r. (r ''admissionid'', r ''measuredat'', r ''itemid'', r ''value''))
        (filter (\<lambda>r. is_in (r ''itemid'') [6640, 9947, 10053] \<and> r ''value'' \<noteq> Null)
           (rows ex_numericitems))
       = [(IntV 3, IntV 1000, IntV 9947, NumV (61 / 10))]"
    by (simp add: ex_numericitems_def is_in_def)
  have 5: "etl_hirid_labs E st = Inr (st\<lparr>console := console st @ [LabsIncluded ''observations'']\<rparr>)"
    by (simp add: etl_hirid_labs_def print_def)
  have 6: "etl_aumc_labs E st = Inr (st\<lparr>console := console st @ [LabsIncluded ''numericitems'']\<rparr>)"
    by (simp add: etl_aumc_labs_def print_def)
  from 1 2 3 4 5 6 ex_hirid_merged_ids [of "''hirid''" ex_merged_fs]
    ex_aumc_merged_ids [of "''aumc''" ex_merged_fs]
  show ?thesis by (intro conjI)
qed

end
